theory Spec2Isabelle
  imports Main "HOL-Library.Word" "HOL-Library.AList" "HOL-Library.Char_ord"
    "HOL-Library.List_Lexorder"
begin

section \<open>The Byfl run-time library (lib/byfl/byfl.cpp)\<close>

text \<open>
  The library is called by an instrumented program at every basic-block and function
  boundary. Its C++ globals are gathered in one state record that every operation takes
  and returns; its counters are unsigned 64-bit words, so \<open>+\<close> and \<open>-\<close> wrap as the
  C++ arithmetic does. One thread is modelled: the scalar tallies are the calling
  thread's \<open>__thread\<close> variables.
\<close>

subsection \<open>ByteFlopCounters\<close>

type_synonym uint64 = "64 word"
type_synonym uint8 = "8 word"

datatype bb_end_t = BB_NOT_END | BB_END_UNCOND | BB_END_COND

record ByteFlopCounters =
  loads :: uint64
  stores :: uint64
  load_ins :: uint64
  load_float_ins :: uint64
  load_double_ins :: uint64
  load_int8_ins :: uint64
  load_int16_ins :: uint64
  load_int32_ins :: uint64
  load_int64_ins :: uint64
  load_ptr_ins :: uint64
  load_other_type_ins :: uint64
  store_ins :: uint64
  store_float_ins :: uint64
  store_double_ins :: uint64
  store_int8_ins :: uint64
  store_int16_ins :: uint64
  store_int32_ins :: uint64
  store_int64_ins :: uint64
  store_ptr_ins :: uint64
  store_other_type_ins :: uint64
  flops :: uint64
  fp_bits :: uint64
  ops :: uint64
  op_bits :: uint64
  cond_brs :: uint64
  b_blocks :: uint64

text \<open>The constructor with every argument defaulted, and \<open>reset\<close>: all counters zero.\<close>

definition zero_counters :: ByteFlopCounters where
  "zero_counters =
     \<lparr>loads = 0, stores = 0, load_ins = 0, load_float_ins = 0, load_double_ins = 0,
      load_int8_ins = 0, load_int16_ins = 0, load_int32_ins = 0, load_int64_ins = 0,
      load_ptr_ins = 0, load_other_type_ins = 0, store_ins = 0, store_float_ins = 0,
      store_double_ins = 0, store_int8_ins = 0, store_int16_ins = 0, store_int32_ins = 0,
      store_int64_ins = 0, store_ptr_ins = 0, store_other_type_ins = 0, flops = 0,
      fp_bits = 0, ops = 0, op_bits = 0, cond_brs = 0, b_blocks = 0\<rparr>"

definition reset :: "ByteFlopCounters \<Rightarrow> ByteFlopCounters" where
  "reset c = zero_counters"

text \<open>
  \<open>accumulate\<close> has two overloads with the same body, field by field: one takes another
  counter object, the other 26 scalars in field order. The scalar overload is applied
  here to the 26 arguments packed in field order (see \<open>tally_args\<close> below).
\<close>

definition accumulate :: "ByteFlopCounters \<Rightarrow> ByteFlopCounters \<Rightarrow> ByteFlopCounters" where
  "accumulate c other =
     \<lparr>loads = loads c + loads other,
      stores = stores c + stores other,
      load_ins = load_ins c + load_ins other,
      load_float_ins = load_float_ins c + load_float_ins other,
      load_double_ins = load_double_ins c + load_double_ins other,
      load_int8_ins = load_int8_ins c + load_int8_ins other,
      load_int16_ins = load_int16_ins c + load_int16_ins other,
      load_int32_ins = load_int32_ins c + load_int32_ins other,
      load_int64_ins = load_int64_ins c + load_int64_ins other,
      load_ptr_ins = load_ptr_ins c + load_ptr_ins other,
      load_other_type_ins = load_other_type_ins c + load_other_type_ins other,
      store_ins = store_ins c + store_ins other,
      store_float_ins = store_float_ins c + store_float_ins other,
      store_double_ins = store_double_ins c + store_double_ins other,
      store_int8_ins = store_int8_ins c + store_int8_ins other,
      store_int16_ins = store_int16_ins c + store_int16_ins other,
      store_int32_ins = store_int32_ins c + store_int32_ins other,
      store_int64_ins = store_int64_ins c + store_int64_ins other,
      store_ptr_ins = store_ptr_ins c + store_ptr_ins other,
      store_other_type_ins = store_other_type_ins c + store_other_type_ins other,
      flops = flops c + flops other,
      fp_bits = fp_bits c + fp_bits other,
      ops = ops c + ops other,
      op_bits = op_bits c + op_bits other,
      cond_brs = cond_brs c + cond_brs other,
      b_blocks = b_blocks c + b_blocks other\<rparr>"

definition difference :: "ByteFlopCounters \<Rightarrow> ByteFlopCounters \<Rightarrow> ByteFlopCounters" where
  "difference c other =
     \<lparr>loads = loads c - loads other,
      stores = stores c - stores other,
      load_ins = load_ins c - load_ins other,
      load_float_ins = load_float_ins c - load_float_ins other,
      load_double_ins = load_double_ins c - load_double_ins other,
      load_int8_ins = load_int8_ins c - load_int8_ins other,
      load_int16_ins = load_int16_ins c - load_int16_ins other,
      load_int32_ins = load_int32_ins c - load_int32_ins other,
      load_int64_ins = load_int64_ins c - load_int64_ins other,
      load_ptr_ins = load_ptr_ins c - load_ptr_ins other,
      load_other_type_ins = load_other_type_ins c - load_other_type_ins other,
      store_ins = store_ins c - store_ins other,
      store_float_ins = store_float_ins c - store_float_ins other,
      store_double_ins = store_double_ins c - store_double_ins other,
      store_int8_ins = store_int8_ins c - store_int8_ins other,
      store_int16_ins = store_int16_ins c - store_int16_ins other,
      store_int32_ins = store_int32_ins c - store_int32_ins other,
      store_int64_ins = store_int64_ins c - store_int64_ins other,
      store_ptr_ins = store_ptr_ins c - store_ptr_ins other,
      store_other_type_ins = store_other_type_ins c - store_other_type_ins other,
      flops = flops c - flops other,
      fp_bits = fp_bits c - fp_bits other,
      ops = ops c - ops other,
      op_bits = op_bits c - op_bits other,
      cond_brs = cond_brs c - cond_brs other,
      b_blocks = b_blocks c - b_blocks other\<rparr>"

subsection \<open>The thread-local scalar tallies\<close>

record tally =
  bf_load_count :: uint64
  bf_store_count :: uint64
  bf_load_ins_count :: uint64
  bf_load_float_ins_count :: uint64
  bf_load_double_ins_count :: uint64
  bf_load_int8_ins_count :: uint64
  bf_load_int16_ins_count :: uint64
  bf_load_int32_ins_count :: uint64
  bf_load_int64_ins_count :: uint64
  bf_load_ptr_ins_count :: uint64
  bf_load_other_type_ins_count :: uint64
  bf_store_ins_count :: uint64
  bf_store_float_ins_count :: uint64
  bf_store_double_ins_count :: uint64
  bf_store_int8_ins_count :: uint64
  bf_store_int16_ins_count :: uint64
  bf_store_int32_ins_count :: uint64
  bf_store_int64_ins_count :: uint64
  bf_store_ptr_ins_count :: uint64
  bf_store_other_type_ins_count :: uint64
  bf_flop_count :: uint64
  bf_fp_bits_count :: uint64
  bf_op_count :: uint64
  bf_op_bits_count :: uint64

definition zero_tally :: tally where
  "zero_tally =
     \<lparr>bf_load_count = 0, bf_store_count = 0, bf_load_ins_count = 0,
      bf_load_float_ins_count = 0, bf_load_double_ins_count = 0,
      bf_load_int8_ins_count = 0, bf_load_int16_ins_count = 0,
      bf_load_int32_ins_count = 0, bf_load_int64_ins_count = 0,
      bf_load_ptr_ins_count = 0, bf_load_other_type_ins_count = 0,
      bf_store_ins_count = 0, bf_store_float_ins_count = 0,
      bf_store_double_ins_count = 0, bf_store_int8_ins_count = 0,
      bf_store_int16_ins_count = 0, bf_store_int32_ins_count = 0,
      bf_store_int64_ins_count = 0, bf_store_ptr_ins_count = 0,
      bf_store_other_type_ins_count = 0, bf_flop_count = 0, bf_fp_bits_count = 0,
      bf_op_count = 0, bf_op_bits_count = 0\<rparr>"

text \<open>
  The argument list \<open>(bf_load_count, bf_store_count, ..., bf_op_bits_count, cbrs, bbs)\<close>
  that \<open>bf_accumulate_bb_tallies\<close>, \<open>bf_assoc_counters_with_func\<close> and the end-of-program
  report pass to the 26-argument constructor and to the scalar \<open>accumulate\<close>.
\<close>

definition tally_args :: "tally \<Rightarrow> uint64 \<Rightarrow> uint64 \<Rightarrow> ByteFlopCounters" where
  "tally_args t cbrs bbs =
     \<lparr>loads = bf_load_count t,
      stores = bf_store_count t,
      load_ins = bf_load_ins_count t,
      load_float_ins = bf_load_float_ins_count t,
      load_double_ins = bf_load_double_ins_count t,
      load_int8_ins = bf_load_int8_ins_count t,
      load_int16_ins = bf_load_int16_ins_count t,
      load_int32_ins = bf_load_int32_ins_count t,
      load_int64_ins = bf_load_int64_ins_count t,
      load_ptr_ins = bf_load_ptr_ins_count t,
      load_other_type_ins = bf_load_other_type_ins_count t,
      store_ins = bf_store_ins_count t,
      store_float_ins = bf_store_float_ins_count t,
      store_double_ins = bf_store_double_ins_count t,
      store_int8_ins = bf_store_int8_ins_count t,
      store_int16_ins = bf_store_int16_ins_count t,
      store_int32_ins = bf_store_int32_ins_count t,
      store_int64_ins = bf_store_int64_ins_count t,
      store_ptr_ins = bf_store_ptr_ins_count t,
      store_other_type_ins = bf_store_other_type_ins_count t,
      flops = bf_flop_count t,
      fp_bits = bf_fp_bits_count t,
      ops = bf_op_count t,
      op_bits = bf_op_bits_count t,
      cond_brs = cbrs,
      b_blocks = bbs\<rparr>"

text \<open>\<open>uint64_t(end_of_basic_block == BB_END_COND)\<close> and \<open>uint64_t(end_of_basic_block != BB_NOT_END)\<close>.\<close>

definition is_cond :: "bb_end_t \<Rightarrow> uint64" where
  "is_cond e = (if e = BB_END_COND then 1 else 0)"

definition is_end :: "bb_end_t \<Rightarrow> uint64" where
  "is_end e = (if e \<noteq> BB_NOT_END then 1 else 0)"

subsection \<open>Errors\<close>

text \<open>
  \<open>Exit n msg\<close>: the process ends through \<open>exit(n)\<close> after writing \<open>msg\<close> to \<open>cerr\<close>.
  \<open>EmptyStack\<close>: \<open>back()\<close> or \<open>pop_back()\<close> on an empty vector, which C++ leaves undefined.
\<close>

datatype error = Exit nat string | EmptyStack

subsection \<open>Symbol interning\<close>

text \<open>
  Modelled from the spec: \<open>bf_string_to_symbol\<close> is declared \<open>extern\<close> and defined in
  another file of the library. It maps equal strings to one canonical pointer, so that a
  pointer to an interned string is identified with the string it points to; the null
  pointer stays null (the caller tests its result against \<open>NULL\<close>).
\<close>

definition bf_string_to_symbol :: "string \<Rightarrow> string" where
  "bf_string_to_symbol nonunique = nonunique"

definition bf_string_to_symbol_opt :: "string option \<Rightarrow> string option" where
  "bf_string_to_symbol_opt p = map_option bf_string_to_symbol p"

subsection \<open>CounterMemoryPool\<close>

record CounterMemoryPool =
  freelist :: "ByteFlopCounters list"

text \<open>Vectors used as stacks are kept with \<open>back()\<close> at the head of the list.\<close>

definition allocate :: "CounterMemoryPool \<Rightarrow> ByteFlopCounters \<times> CounterMemoryPool" where
  "allocate p =
     (case freelist p of
        newBFC # rest \<Rightarrow> (reset newBFC, p\<lparr>freelist := rest\<rparr>)
      | [] \<Rightarrow> (zero_counters, p))"

definition deallocate :: "ByteFlopCounters \<Rightarrow> CounterMemoryPool \<Rightarrow> CounterMemoryPool" where
  "deallocate oldBFC p = p\<lparr>freelist := oldBFC # freelist p\<rparr>"

subsection \<open>CallStack\<close>

record CallStack =
  complete_call_stack :: "string list"
  max_depth :: nat

text \<open>The constructor; it also sets the global \<open>bf_func_and_parents\<close> to \<open>"-"\<close> (see \<open>initialize_byfl\<close>).\<close>

definition new_CallStack :: CallStack where
  "new_CallStack = \<lparr>complete_call_stack = [], max_depth = 0\<rparr>"

text \<open>
  \<open>push_function\<close> builds \<open>combined_name\<close> in a buffer that is allocated or grown to
  hold it, interns it, pushes it and returns it.
\<close>

definition push_function :: "string \<Rightarrow> CallStack \<Rightarrow> string \<times> CallStack" where
  "push_function funcname cs =
     (let current_stack_depth = length (complete_call_stack cs) in
      if current_stack_depth = 0 then
        (let unique_combined_name = bf_string_to_symbol funcname in
         (unique_combined_name,
          cs\<lparr>max_depth := 1,
             complete_call_stack := unique_combined_name # complete_call_stack cs\<rparr>))
      else
        (let ancestors_names = hd (complete_call_stack cs);
             combined_name = funcname @ '' '' @ ancestors_names;
             current_stack_depth = current_stack_depth + 1;
             md = (if current_stack_depth > max_depth cs then current_stack_depth
                   else max_depth cs);
             unique_combined_name = bf_string_to_symbol combined_name in
         (unique_combined_name,
          cs\<lparr>max_depth := md,
             complete_call_stack := unique_combined_name # complete_call_stack cs\<rparr>)))"

definition pop_function :: "CallStack \<Rightarrow> error + (string \<times> CallStack)" where
  "pop_function cs =
     (case complete_call_stack cs of
        [] \<Rightarrow> Inl EmptyStack
      | popped # rest \<Rightarrow>
          Inr (case rest of [] \<Rightarrow> ''[EMPTY]'' | new_back # below \<Rightarrow> new_back,
               cs\<lparr>complete_call_stack := rest\<rparr>))"

subsection \<open>Configuration, output and the library's state\<close>

text \<open>The constants that the instrumented code defines; a flag is on when it is not zero.\<close>

record config =
  bf_bb_merge :: uint64
  bf_all_ops :: uint8
  bf_types :: uint8
  bf_per_func :: uint8
  bf_call_stack :: uint8
  bf_unique_bytes :: uint8
  bf_vectors :: uint8

text \<open>
  What is written to \<open>cout\<close>, one entry per line. Numbers are kept as the integers that
  are printed; a ratio \<open>(double)a * k / (double)b\<close> is kept as \<open>Ratio a k b\<close>, its operands
  before the conversion to \<open>double\<close>. \<open>FUNC_REPORT\<close> and \<open>VECTOR_REPORT\<close> stand for the
  tables printed by \<open>report_by_function\<close> and \<open>bf_report_vector_operations\<close>.
\<close>

datatype token = Str string | Num uint64 | Ratio uint64 nat uint64 | Separator

datatype line =
    BYFL_BB_HEADER "string list"
  | BYFL_BB "uint64 list"
  | BYFL_SUMMARY "string option" "token list"
  | FUNC_REPORT
  | VECTOR_REPORT nat

datatype output_t = UNKNOWN | SUPPRESS | SHOW

text \<open>
  Modelled from the spec: \<open>cachemap.h\<close> (\<open>CachedUnorderedMap\<close>) is not among the sources.
  It is a hash map from interned strings, modelled as an association list with one entry
  per key: \<open>map_of\<close> is \<open>find\<close>, \<open>AList.update\<close> is assignment through \<open>operator[]\<close>.
\<close>

record state =
  tallies :: tally
  num_merged :: uint64
  global_totals :: ByteFlopCounters
  prev_global_totals :: ByteFlopCounters
  per_func_totals :: "(string \<times> ByteFlopCounters) list"
  func_call_tallies :: "(string \<times> uint64) list"
  user_defined_totals :: "(string \<times> ByteFlopCounters) list"
  bf_func_and_parents :: string
  bb_totals :: "ByteFlopCounters list"
  counter_memory_pool :: CounterMemoryPool
  call_stack :: CallStack
  all_constructors_called :: bool
  output_v :: output_t
  showed_header :: bool
  cout :: "line list"

text \<open>The statics as the program starts, before \<open>initialize_byfl\<close> and the constructors.\<close>

definition static_state :: state where
  "static_state =
     \<lparr>tallies = zero_tally, num_merged = 0, global_totals = zero_counters,
      prev_global_totals = zero_counters, per_func_totals = [], func_call_tallies = [],
      user_defined_totals = [], bf_func_and_parents = [], bb_totals = [],
      counter_memory_pool = \<lparr>freelist = []\<rparr>, call_stack = new_CallStack,
      all_constructors_called = False, output_v = UNKNOWN, showed_header = False,
      cout = []\<rparr>"

subsection \<open>Basic blocks and function calls\<close>

definition bf_push_basic_block :: "state \<Rightarrow> state" where
  "bf_push_basic_block s =
     (case allocate (counter_memory_pool s) of
        (c, p) \<Rightarrow> s\<lparr>bb_totals := c # bb_totals s, counter_memory_pool := p\<rparr>)"

definition initialize_byfl :: "state \<Rightarrow> state" where
  "initialize_byfl s =
     bf_push_basic_block
       (s\<lparr>call_stack := new_CallStack, bf_func_and_parents := ''-'',
          counter_memory_pool := \<lparr>freelist = []\<rparr>\<rparr>)"

definition bf_pop_basic_block :: "state \<Rightarrow> error + state" where
  "bf_pop_basic_block s =
     (case bb_totals s of
        [] \<Rightarrow> Inl EmptyStack
      | b # rest \<Rightarrow>
          Inr (s\<lparr>counter_memory_pool := deallocate b (counter_memory_pool s),
                 bb_totals := rest\<rparr>))"

text \<open>\<open>m[k]\<close> read after \<open>operator[]\<close> has inserted a zero for an absent key, and \<open>m[k] += d\<close>.\<close>

definition tally_of :: "(string \<times> uint64) list \<Rightarrow> string \<Rightarrow> uint64" where
  "tally_of m k = (case map_of m k of None \<Rightarrow> 0 | Some n \<Rightarrow> n)"

definition add_tally :: "string \<Rightarrow> uint64 \<Rightarrow> (string \<times> uint64) list \<Rightarrow> (string \<times> uint64) list" where
  "add_tally k d m = AList.update k (tally_of m k + d) m"

definition bf_incr_func_tally :: "string \<Rightarrow> state \<Rightarrow> state" where
  "bf_incr_func_tally funcname s =
     (let unique_name = bf_string_to_symbol funcname in
      s\<lparr>func_call_tallies := add_tally unique_name 1 (func_call_tallies s)\<rparr>)"

definition bf_push_function :: "string \<Rightarrow> state \<Rightarrow> state" where
  "bf_push_function funcname s =
     (case push_function funcname (call_stack s) of
        (unique_combined_name, cs) \<Rightarrow>
          (let t1 = add_tally unique_combined_name 1 (func_call_tallies s);
               unique_name = bf_string_to_symbol funcname;
               t2 = add_tally unique_name 0 t1 in
           s\<lparr>call_stack := cs, bf_func_and_parents := unique_combined_name,
              func_call_tallies := t2\<rparr>))"

definition bf_pop_function :: "state \<Rightarrow> error + state" where
  "bf_pop_function s =
     (case pop_function (call_stack s) of
        Inl e \<Rightarrow> Inl e
      | Inr (name, cs) \<Rightarrow> Inr (s\<lparr>bf_func_and_parents := name, call_stack := cs\<rparr>))"

subsection \<open>Output suppression\<close>

text \<open>\<open>string::find_first_of(c)\<close>: the position of the first \<open>c\<close>, \<open>None\<close> for \<open>npos\<close>.\<close>

fun find_first_of :: "string \<Rightarrow> char \<Rightarrow> nat option" where
  "find_first_of [] c = None"
| "find_first_of (x # xs) c =
     (if x = c then Some 0 else map_option Suc (find_first_of xs c))"

text \<open>
  The environment is the function \<open>getenv\<close>. The result is whether output is suppressed,
  with the state in which the decision is remembered.
\<close>

definition suppress_output :: "(string \<Rightarrow> string option) \<Rightarrow> state \<Rightarrow> error + (bool \<times> state)" where
  "suppress_output getenv s =
     (if \<not> all_constructors_called s then Inr (True, s)
      else if output_v s = UNKNOWN then
        (case getenv ''BYFL_OUTPUT_IF'' of
           Some output_if \<Rightarrow>
             (case find_first_of output_if CHR ''='' of
                None \<Rightarrow>
                  Inl (Exit 1 (''Failed to parse '' @ [CHR 0x22] @ output_if @ [CHR 0x22]
                               @ '' into VAR=VALUE'' @ [CHR 0x0A]))
              | Some eqpos \<Rightarrow>
                  (let output_var = take eqpos output_if;
                       output_value = drop (eqpos + 1) output_if;
                       actual_value = (case getenv output_var of Some a \<Rightarrow> a | None \<Rightarrow> []);
                       decided = (if output_value = actual_value then SHOW else SUPPRESS) in
                   Inr (decided = SUPPRESS, s\<lparr>output_v := decided\<rparr>)))
         | None \<Rightarrow> Inr (False, s\<lparr>output_v := SHOW\<rparr>))
      else Inr (output_v s = SUPPRESS, s))"

subsection \<open>Accumulating and reporting basic-block tallies\<close>

text \<open>
  The weak default of the categorization hook returns \<open>NULL\<close>. A program may override
  it, so \<open>bf_accumulate_bb_tallies\<close> takes as \<open>categorize\<close> what the hook returns when it
  is called.
\<close>

definition bf_categorize_counters :: "string option" where
  "bf_categorize_counters = None"

text \<open>
  The source compares the iterator returned by \<open>user_defined_totals().find\<close> with
  \<open>per_func_totals().end()\<close>; the past-the-end iterator of the hash map does not depend
  on the container, so the test is whether the key was found.
\<close>

definition bf_accumulate_bb_tallies :: "string option \<Rightarrow> bb_end_t \<Rightarrow> state \<Rightarrow> error + state" where
  "bf_accumulate_bb_tallies categorize end_of_basic_block s =
     (case bb_totals s of
        [] \<Rightarrow> Inl EmptyStack
      | bb # rest \<Rightarrow>
          (let current_bb =
                 accumulate bb (tally_args (tallies s) (is_cond end_of_basic_block)
                                  (is_end end_of_basic_block));
               s1 = s\<lparr>bb_totals := current_bb # rest\<rparr> in
           if end_of_basic_block \<noteq> BB_NOT_END then
             (let s2 = s1\<lparr>global_totals := accumulate (global_totals s1) current_bb\<rparr> in
              case bf_string_to_symbol_opt categorize of
                None \<Rightarrow> Inr s2
              | Some partition_tag \<Rightarrow>
                  (case map_of (user_defined_totals s2) partition_tag of
                     None \<Rightarrow>
                       Inr (s2\<lparr>user_defined_totals :=
                                 AList.update partition_tag current_bb (user_defined_totals s2)\<rparr>)
                   | Some c \<Rightarrow>
                       Inr (s2\<lparr>user_defined_totals :=
                                 AList.update partition_tag (accumulate c current_bb)
                                   (user_defined_totals s2)\<rparr>)))
           else Inr s1))"

definition bf_reset_bb_tallies :: "state \<Rightarrow> error + state" where
  "bf_reset_bb_tallies s =
     (case bb_totals s of
        [] \<Rightarrow> Inl EmptyStack
      | bb # rest \<Rightarrow> Inr (s\<lparr>bb_totals := reset bb # rest\<rparr>))"

definition bb_header :: "config \<Rightarrow> string list" where
  "bb_header cfg =
     [''Bytes_LD'', ''Bytes_ST'', ''Ops_LD'', ''Ops_ST'', ''Flops'', ''FP_bits''] @
     (if bf_all_ops cfg \<noteq> 0 then
        [''Int_Ops'', ''Int_Op_bits''] @
        (if bf_types cfg \<noteq> 0 then
           [''Flt_LD'', ''Dbl_LD'', ''I8_LD'', ''I16_LD'', ''I32_LD'', ''I64_LD'', ''Ptr_LD'',
            ''Other_LD'', ''Flt_ST'', ''Dbl_ST'', ''I8_ST'', ''I16_ST'', ''I32_ST'', ''I64_ST'',
            ''Ptr_ST'', ''Other_ST'']
         else [])
      else [])"

definition bb_row :: "config \<Rightarrow> ByteFlopCounters \<Rightarrow> uint64 list" where
  "bb_row cfg counter_deltas =
     [loads counter_deltas, stores counter_deltas, load_ins counter_deltas,
      store_ins counter_deltas, flops counter_deltas, fp_bits counter_deltas] @
     (if bf_all_ops cfg \<noteq> 0 then
        [ops counter_deltas, op_bits counter_deltas] @
        (if bf_types cfg \<noteq> 0 then
           [load_float_ins counter_deltas, load_double_ins counter_deltas,
            load_int8_ins counter_deltas, load_int16_ins counter_deltas,
            load_int32_ins counter_deltas, load_int64_ins counter_deltas,
            load_ptr_ins counter_deltas, load_other_type_ins counter_deltas,
            store_float_ins counter_deltas, store_double_ins counter_deltas,
            store_int8_ins counter_deltas, store_int16_ins counter_deltas,
            store_int32_ins counter_deltas, store_int64_ins counter_deltas,
            store_ptr_ins counter_deltas, store_other_type_ins counter_deltas]
         else [])
      else [])"

definition bf_report_bb_tallies :: "config \<Rightarrow> (string \<Rightarrow> string option) \<Rightarrow> state \<Rightarrow> error + state" where
  "bf_report_bb_tallies cfg getenv s =
     (case suppress_output getenv s of
        Inl e \<Rightarrow> Inl e
      | Inr (suppressed, s1) \<Rightarrow>
          if suppressed then Inr s1
          else
            (let s2 = (if \<not> showed_header s1
                       then s1\<lparr>cout := cout s1 @ [BYFL_BB_HEADER (bb_header cfg)],
                               showed_header := True\<rparr>
                       else s1);
                 s3 = s2\<lparr>num_merged := num_merged s2 + 1\<rparr> in
             if num_merged s3 \<ge> bf_bb_merge cfg then
               (let counter_deltas = difference (global_totals s3) (prev_global_totals s3) in
                Inr (s3\<lparr>cout := cout s3 @ [BYFL_BB (bb_row cfg counter_deltas)],
                        num_merged := 0,
                        prev_global_totals := global_totals s3\<rparr>))
             else Inr s3))"

definition bf_assoc_counters_with_func :: "config \<Rightarrow> string \<Rightarrow> bb_end_t \<Rightarrow> state \<Rightarrow> state" where
  "bf_assoc_counters_with_func cfg funcname end_of_basic_block s =
     (let key = (if bf_call_stack cfg \<noteq> 0 then bf_func_and_parents s
                 else bf_string_to_symbol funcname);
          args = tally_args (tallies s) (is_cond end_of_basic_block)
                   (is_end end_of_basic_block) in
      case map_of (per_func_totals s) key of
        None \<Rightarrow> s\<lparr>per_func_totals := AList.update key args (per_func_totals s)\<rparr>
      | Some func_counters \<Rightarrow>
          s\<lparr>per_func_totals :=
              AList.update key (accumulate func_counters args) (per_func_totals s)\<rparr>)"

subsection \<open>The report at the end of the program\<close>

text \<open>
  What the collaborators in other files return: \<open>bf_get_reuse_distance\<close> (its count of
  unique addresses), \<open>bf_tally_unique_addresses()\<close>, \<open>bf_get_median_reuse_distance\<close> and
  \<open>bf_get_vector_statistics\<close> (for a tag, or overall for \<open>None\<close>; operations, elements,
  bits).
\<close>

record collab =
  reuse_unique_addrs :: uint64
  tally_unique_addresses :: uint64
  median_reuse_distance :: "uint64 \<times> uint64"
  vector_statistics :: "string option \<Rightarrow> uint64 \<times> uint64 \<times> uint64"

definition when_true :: "bool \<Rightarrow> 'a list \<Rightarrow> 'a list" where
  "when_true b xs = (if b then xs else [])"

text \<open>
  \<open>report_totals\<close>, line by line in the order of the source. \<open>total_vec_elts\<close> and
  \<open>total_vec_bits\<close> are read only when \<open>bf_vectors\<close> is set.
\<close>

definition report_totals :: "config \<Rightarrow> collab \<Rightarrow> string option \<Rightarrow> ByteFlopCounters \<Rightarrow> line list" where
  "report_totals cfg ext partition_tag counter_totals =
     (let global_bytes = loads counter_totals + stores counter_totals;
          global_mem_ops = load_ins counter_totals + store_ins counter_totals;
          reuse_unique = reuse_unique_addrs ext;
          unique_flag = (bf_unique_bytes cfg \<noteq> 0);
          global_unique_bytes =
            (if reuse_unique > 0 then reuse_unique
             else if unique_flag \<and> partition_tag = None then tally_unique_addresses ext
             else 0);
          vec = (if bf_vectors cfg \<noteq> 0 then vector_statistics ext partition_tag
                 else (0, 0, 0));
          num_vec_ops = fst vec;
          total_vec_elts = fst (snd vec);
          total_vec_bits = snd (snd vec)
      in map (BYFL_SUMMARY partition_tag)
       ([[Separator]] @
        when_true (cond_brs counter_totals > 0)
          [[Num (b_blocks counter_totals), Str '' basic blocks''],
           [Num (cond_brs counter_totals), Str '' conditional or indirect branches''],
           [Separator]] @
        [[Num global_bytes, Str '' bytes ('', Num (loads counter_totals), Str '' loaded + '',
          Num (stores counter_totals), Str '' stored)'']] @
        when_true (unique_flag \<and> partition_tag = None)
          [[Num global_unique_bytes, Str '' unique bytes'']] @
        [[Num (flops counter_totals), Str '' flops'']] @
        when_true (bf_all_ops cfg \<noteq> 0)
          ([[Num (ops counter_totals), Str '' integer ops''],
            [Num global_mem_ops, Str '' memory ops ('', Num (load_ins counter_totals),
             Str '' loads + '', Num (store_ins counter_totals), Str '' stores)'']] @
           when_true (bf_types cfg \<noteq> 0)
             [[Separator],
              [Num (load_float_ins counter_totals), Str '' single-precision floating point loads''],
              [Num (load_double_ins counter_totals), Str '' double-precision floating point loads''],
              [Num (load_int8_ins counter_totals), Str ''  8-bit integer loads''],
              [Num (load_int16_ins counter_totals), Str '' 16-bit integer loads''],
              [Num (load_int32_ins counter_totals), Str '' 32-bit integer loads''],
              [Num (load_int64_ins counter_totals), Str '' 64-bit integer loads''],
              [Num (load_ptr_ins counter_totals), Str '' pointer/address loads''],
              [Num (load_other_type_ins counter_totals), Str '' loads of other types''],
              [Separator],
              [Num (store_float_ins counter_totals), Str '' single-precision floating point stores''],
              [Num (store_double_ins counter_totals), Str '' double-precision floating point stores''],
              [Num (store_int8_ins counter_totals), Str ''  8-bit integer stores''],
              [Num (store_int16_ins counter_totals), Str '' 16-bit integer stores''],
              [Num (store_int32_ins counter_totals), Str '' 32-bit integer stores''],
              [Num (store_int64_ins counter_totals), Str '' 64-bit integer stores''],
              [Num (store_ptr_ins counter_totals), Str '' pointer/address stores''],
              [Num (store_other_type_ins counter_totals), Str '' stores of other types'']]) @
        when_true (reuse_unique > 0)
          [if fst (median_reuse_distance ext) = - 1
           then [Str ''infinite'', Str '' median reuse distance'']
           else [Num (fst (median_reuse_distance ext)), Str '' median reuse distance (+/- '',
                 Num (snd (median_reuse_distance ext)), Str '')'']] @
        [[Separator]] @
        [[Num (global_bytes * 8), Str '' bits ('', Num (loads counter_totals * 8),
          Str '' loaded + '', Num (stores counter_totals * 8), Str '' stored)'']] @
        when_true (unique_flag \<and> partition_tag = None)
          [[Num (global_unique_bytes * 8), Str '' unique bits'']] @
        [[Num (fp_bits counter_totals), Str '' flop bits'']] @
        when_true (bf_all_ops cfg \<noteq> 0)
          [[Num (op_bits counter_totals), Str '' integer op bits'']] @
        [[Separator]] @
        when_true (bf_vectors cfg \<noteq> 0)
          ([[Num num_vec_ops, Str '' vector operations'']] @
           when_true (num_vec_ops > 0)
             [[Ratio total_vec_elts 1 num_vec_ops, Str '' elements per vector''],
              [Ratio total_vec_bits 1 num_vec_ops, Str '' bits per element'']] @
           [[Separator]]) @
        [[Ratio (loads counter_totals) 1 (stores counter_totals),
          Str '' bytes loaded per byte stored'']] @
        when_true (bf_all_ops cfg \<noteq> 0)
          (when_true (load_ins counter_totals > 0)
             [[Ratio (ops counter_totals) 1 (load_ins counter_totals),
               Str '' integer ops per load instruction'']] @
           when_true (global_mem_ops > 0)
             [[Ratio global_bytes 8 global_mem_ops, Str '' bits loaded/stored per memory op'']]) @
        when_true (cond_brs counter_totals > 0)
          (when_true (flops counter_totals > 0)
             [[Ratio (flops counter_totals) 1 (cond_brs counter_totals),
               Str '' flops per conditional/indirect branch'']] @
           when_true (ops counter_totals > 0)
             [[Ratio (ops counter_totals) 1 (cond_brs counter_totals),
               Str '' ops per conditional/indirect branch'']] @
           when_true (num_vec_ops > 0)
             [[Ratio num_vec_ops 1 (cond_brs counter_totals),
               Str '' vector ops per conditional/indirect branch'']]) @
        when_true (num_vec_ops > 0)
          (when_true (flops counter_totals > 0)
             [[Ratio num_vec_ops 1 (flops counter_totals),
               Str '' vector operations (FP & int) per flop'']] @
           when_true (ops counter_totals > 0)
             [[Ratio num_vec_ops 1 (ops counter_totals),
               Str '' vector operations per integer op'']]) @
        [[Separator]] @
        when_true (flops counter_totals > 0)
          [[Ratio global_bytes 1 (flops counter_totals), Str '' bytes per flop''],
           [Ratio global_bytes 8 (fp_bits counter_totals), Str '' bits per flop bit'']] @
        when_true (ops counter_totals > 0)
          [[Ratio global_bytes 1 (ops counter_totals), Str '' bytes per integer op''],
           [Ratio global_bytes 8 (op_bits counter_totals), Str '' bits per integer op bit'']] @
        when_true (unique_flag \<and> (flops counter_totals > 0 \<or> ops counter_totals > 0))
          ([[Separator]] @
           when_true (flops counter_totals > 0)
             [[Ratio global_unique_bytes 1 (flops counter_totals), Str '' unique bytes per flop''],
              [Ratio global_unique_bytes 8 (fp_bits counter_totals),
               Str '' unique bits per flop bit'']] @
           when_true (ops counter_totals > 0)
             [[Ratio global_unique_bytes 1 (ops counter_totals),
               Str '' unique bytes per integer op''],
              [Ratio global_unique_bytes 8 (op_bits counter_totals),
               Str '' unique bits per integer op bit'']]) @
        when_true (unique_flag \<and> partition_tag = None)
          [[Ratio global_bytes 1 global_unique_bytes, Str '' bytes per unique byte'']] @
        [[Separator]]))"

text \<open>
  The two steps of the destructor of \<open>RunAtEndOfProgram\<close> that complete \<open>global_totals\<close>:
  the scalars are added when no basic block was counted, then the per-function
  counters are added under the same test, and the two per-block counters are cleared.
\<close>

definition fold_tallies_into_global :: "state \<Rightarrow> state" where
  "fold_tallies_into_global s =
     (if b_blocks (global_totals s) = 0
      then s\<lparr>global_totals := accumulate (global_totals s) (tally_args (tallies s) 0 0)\<rparr>
      else s)"

definition reconstruct_from_per_func :: "state \<Rightarrow> state" where
  "reconstruct_from_per_func s =
     (if b_blocks (global_totals s) = 0
      then s\<lparr>global_totals :=
               (foldl accumulate (global_totals s) (map snd (per_func_totals s)))
                 \<lparr>b_blocks := 0, cond_brs := 0\<rparr>\<rparr>
      else s)"

text \<open>
  Modelled from the spec: \<open>sorted_keys\<close> belongs to \<open>cachemap.h\<close>; the partitions are
  reported sorted by tag, in the byte order of \<open>strcmp\<close>.
\<close>

definition run_at_end_of_program ::
    "config \<Rightarrow> (string \<Rightarrow> string option) \<Rightarrow> collab \<Rightarrow> state \<Rightarrow> error + state" where
  "run_at_end_of_program cfg getenv ext s =
     (case suppress_output getenv s of
        Inl e \<Rightarrow> Inl e
      | Inr (suppressed, s1) \<Rightarrow>
          if suppressed then Inr s1
          else
            (let s2 = (if bf_per_func cfg \<noteq> 0 then s1\<lparr>cout := cout s1 @ [FUNC_REPORT]\<rparr>
                       else s1);
                 s3 = (if bf_vectors cfg \<noteq> 0
                       then s2\<lparr>cout := cout s2 @ [VECTOR_REPORT (max_depth (call_stack s2))]\<rparr>
                       else s2);
                 s4 = fold_tallies_into_global s3;
                 s5 = reconstruct_from_per_func s4;
                 tagged = concat (map (\<lambda>(tag_name, c). report_totals cfg ext (Some tag_name) c)
                                    (sort_key fst (user_defined_totals s5))) in
             Inr (s5\<lparr>cout := cout s5 @ tagged
                               @ report_totals cfg ext None (global_totals s5)\<rparr>)))"

subsection \<open>Runs of the library\<close>

text \<open>
  The calls that an instrumented program makes, in order. \<open>Tally t\<close> is the inlined code
  that writes the thread-local scalars; \<open>CheckConstruction\<close> is the static constructor
  of this file; \<open>AccumulateBBTallies h e\<close> carries what the categorization hook returns.
\<close>

datatype event =
    CheckConstruction
  | Tally tally
  | PushBasicBlock
  | PopBasicBlock
  | IncrFuncTally string
  | PushFunction string
  | PopFunction
  | AccumulateBBTallies "string option" bb_end_t
  | ResetBBTallies
  | ReportBBTallies
  | AssocCountersWithFunc string bb_end_t

fun step :: "config \<Rightarrow> (string \<Rightarrow> string option) \<Rightarrow> event \<Rightarrow> state \<Rightarrow> error + state" where
  "step cfg getenv CheckConstruction s = Inr (s\<lparr>all_constructors_called := True\<rparr>)"
| "step cfg getenv (Tally t) s = Inr (s\<lparr>tallies := t\<rparr>)"
| "step cfg getenv PushBasicBlock s = Inr (bf_push_basic_block s)"
| "step cfg getenv PopBasicBlock s = bf_pop_basic_block s"
| "step cfg getenv (IncrFuncTally f) s = Inr (bf_incr_func_tally f s)"
| "step cfg getenv (PushFunction f) s = Inr (bf_push_function f s)"
| "step cfg getenv PopFunction s = bf_pop_function s"
| "step cfg getenv (AccumulateBBTallies h e) s = bf_accumulate_bb_tallies h e s"
| "step cfg getenv ResetBBTallies s = bf_reset_bb_tallies s"
| "step cfg getenv ReportBBTallies s = bf_report_bb_tallies cfg getenv s"
| "step cfg getenv (AssocCountersWithFunc f e) s = Inr (bf_assoc_counters_with_func cfg f e s)"

fun run :: "config \<Rightarrow> (string \<Rightarrow> string option) \<Rightarrow> event list \<Rightarrow> state \<Rightarrow> error + state" where
  "run cfg getenv [] s = Inr s"
| "run cfg getenv (e # es) s =
     (case step cfg getenv e s of
        Inl err \<Rightarrow> Inl err
      | Inr s' \<Rightarrow> run cfg getenv es s')"

subsection \<open>Concrete configurations and states\<close>

definition example_config :: config where
  "example_config =
     \<lparr>bf_bb_merge = 2, bf_all_ops = 0, bf_types = 0, bf_per_func = 0, bf_call_stack = 0,
      bf_unique_bytes = 0, bf_vectors = 0\<rparr>"

text \<open>An environment in which no variable is set.\<close>

definition no_env :: "string \<Rightarrow> string option" where
  "no_env name = None"

text \<open>After initialization and construction, with 7 bytes loaded in the global totals.\<close>

definition decimation_state :: state where
  "decimation_state =
     (initialize_byfl static_state)
       \<lparr>all_constructors_called := True,
        global_totals := zero_counters\<lparr>loads := 7\<rparr>\<rparr>"

text \<open>After initialization, with one byte loaded and one load instruction tallied.\<close>

definition flush_state :: state where
  "flush_state =
     (initialize_byfl static_state)
       \<lparr>tallies := zero_tally\<lparr>bf_load_count := 1, bf_load_ins_count := 1\<rparr>\<rparr>"

text \<open>
  Every column enabled and a window of one block; a state in which the header has been
  shown and the totals have grown since the last snapshot.
\<close>

definition types_config :: config where
  "types_config =
     \<lparr>bf_bb_merge = 1, bf_all_ops = 1, bf_types = 1, bf_per_func = 0, bf_call_stack = 0,
      bf_unique_bytes = 0, bf_vectors = 0\<rparr>"

definition typed_state :: state where
  "typed_state =
     (initialize_byfl static_state)
       \<lparr>all_constructors_called := True, output_v := SHOW, showed_header := True,
        global_totals := zero_counters\<lparr>loads := 12, load_ins := 3, load_int32_ins := 3,
                                        ops := 5, op_bits := 160\<rparr>,
        prev_global_totals := zero_counters\<lparr>loads := 4, load_ins := 1, load_int32_ins := 1,
                                             ops := 2, op_bits := 64\<rparr>\<rparr>"

text \<open>As \<open>flush_state\<close>, with two blocks already folded into the totals and into partition \<open>A\<close>.\<close>

definition partition_state :: state where
  "partition_state =
     flush_state
       \<lparr>global_totals := zero_counters\<lparr>loads := 10, b_blocks := 2\<rparr>,
        user_defined_totals := [(''A'', zero_counters\<lparr>loads := 10, b_blocks := 2\<rparr>)]\<rparr>"

subsection \<open>Predicates on runs\<close>

text \<open>
  \<open>tally_bumps st evs\<close> lists, for a run \<open>evs\<close> started with call stack \<open>st\<close>, the key
  of every increment of an invocation tally: the combined name for a function entry,
  the bare name for \<open>bf_incr_func_tally\<close>. \<open>hook_always h evs\<close>: the categorization hook
  returns \<open>h\<close> at every terminating block. \<open>block_terminated evs\<close>: some flush of
  the run ends a basic block. \<open>disciplined b c evs\<close>: with \<open>b\<close> basic-block
  frames and \<open>c\<close> function names pushed by the run so far, every pop in \<open>evs\<close> has a
  matching earlier push.
\<close>

fun tally_bumps :: "string list \<Rightarrow> event list \<Rightarrow> string list" where
  "tally_bumps st [] = []"
| "tally_bumps st (PushFunction f # evs) =
     (let key = (case st of [] \<Rightarrow> f | anc # below \<Rightarrow> f @ '' '' @ anc)
      in key # tally_bumps (key # st) evs)"
| "tally_bumps st (PopFunction # evs) = tally_bumps (tl st) evs"
| "tally_bumps st (IncrFuncTally f # evs) = f # tally_bumps st evs"
| "tally_bumps st (ev # evs) = tally_bumps st evs"

definition call_events :: "event list" where
  "call_events = [PushFunction ''main'', PushFunction ''f'']"

definition more_call_events :: "event list" where
  "more_call_events = [PopFunction, IncrFuncTally ''f'', PushFunction ''f'']"

fun hook_always :: "string option \<Rightarrow> event list \<Rightarrow> bool" where
  "hook_always h [] = True"
| "hook_always h (AccumulateBBTallies h' e # evs) =
     ((e = BB_NOT_END \<or> h' = h) \<and> hook_always h evs)"
| "hook_always h (ev # evs) = hook_always h evs"

fun block_terminated :: "event list \<Rightarrow> bool" where
  "block_terminated [] = False"
| "block_terminated (AccumulateBBTallies h e # evs) =
     (e \<noteq> BB_NOT_END \<or> block_terminated evs)"
| "block_terminated (ev # evs) = block_terminated evs"

definition partition_is_global :: "string \<Rightarrow> state \<Rightarrow> bool" where
  "partition_is_global A s \<longleftrightarrow>
     user_defined_totals s = [(A, global_totals s)] \<or>
     user_defined_totals s = [] \<and> global_totals s = zero_counters"

definition discipline_events :: "event list" where
  "discipline_events =
     [CheckConstruction, PushFunction ''main'', PushBasicBlock,
      Tally (zero_tally\<lparr>bf_load_count := 4, bf_load_ins_count := 1\<rparr>),
      AccumulateBBTallies None BB_END_COND, ReportBBTallies, ResetBBTallies,
      PopBasicBlock, PopFunction]"

definition partition_events :: "event list" where
  "partition_events =
     [Tally (zero_tally\<lparr>bf_load_count := 4, bf_load_ins_count := 1\<rparr>),
      AccumulateBBTallies (Some ''A'') BB_END_COND, ResetBBTallies,
      Tally (zero_tally\<lparr>bf_store_count := 8, bf_store_ins_count := 1\<rparr>),
      AccumulateBBTallies (Some ''A'') BB_END_UNCOND]"

definition no_hook_events :: "event list" where
  "no_hook_events =
     [Tally (zero_tally\<lparr>bf_load_count := 4, bf_load_ins_count := 1\<rparr>),
      AccumulateBBTallies bf_categorize_counters BB_END_COND, ResetBBTallies]"

fun disciplined :: "nat \<Rightarrow> nat \<Rightarrow> event list \<Rightarrow> bool" where
  "disciplined b c [] = True"
| "disciplined b c (PushBasicBlock # evs) = disciplined (Suc b) c evs"
| "disciplined b c (PopBasicBlock # evs) = (b > 0 \<and> disciplined (b - 1) c evs)"
| "disciplined b c (PushFunction f # evs) = disciplined b (Suc c) evs"
| "disciplined b c (PopFunction # evs) = (c > 0 \<and> disciplined b (c - 1) evs)"
| "disciplined b c (ev # evs) = disciplined b c evs"

subsection \<open>Concrete collaborators and runs\<close>

text \<open>
  \<open>shutdown_events\<close>: five bytes are loaded and attributed to \<open>f\<close>, the instrumented code
  clears the scalars, and three more bytes are loaded before the program ends.
  \<open>shutdown_state\<close> is the state this run leads to.
\<close>

definition example_collab :: collab where
  "example_collab =
     \<lparr>reuse_unique_addrs = 0, tally_unique_addresses = 0, median_reuse_distance = (0, 0),
      vector_statistics = (\<lambda>tag. (0, 0, 0))\<rparr>"

definition shutdown_events :: "event list" where
  "shutdown_events =
     [CheckConstruction,
      Tally (zero_tally\<lparr>bf_load_count := 5\<rparr>),
      AssocCountersWithFunc ''f'' BB_NOT_END,
      Tally zero_tally,
      Tally (zero_tally\<lparr>bf_load_count := 3\<rparr>)]"

definition shutdown_state :: state where
  "shutdown_state =
     (initialize_byfl static_state)
       \<lparr>all_constructors_called := True,
        tallies := zero_tally\<lparr>bf_load_count := 3\<rparr>,
        per_func_totals := [(''f'', zero_counters\<lparr>loads := 5\<rparr>)]\<rparr>"

subsection \<open>Concrete environments\<close>






subsection \<open>The records emitted so far\<close>

text \<open>
  The \<open>BYFL_BB\<close> rows among the lines written, and their column-wise sum (starting
  from a row of zeros).
\<close>

fun emitted_rows :: "line list \<Rightarrow> uint64 list list" where
  "emitted_rows [] = []"
| "emitted_rows (BYFL_BB r # ls) = r # emitted_rows ls"
| "emitted_rows (l # ls) = emitted_rows ls"

definition sum_rows :: "config \<Rightarrow> uint64 list list \<Rightarrow> uint64 list" where
  "sum_rows cfg rows = foldl (map2 (+)) (bb_row cfg zero_counters) rows"

section \<open>Properties\<close>

subsection \<open>Auxiliary facts\<close>

lemmas init_defs = initialize_byfl_def static_state_def bf_push_basic_block_def allocate_def
  new_CallStack_def zero_counters_def zero_tally_def

lemma suppress_output_state:
  "suppress_output getenv s = Inr (b, s1) \<Longrightarrow> s1 = s\<lparr>output_v := output_v s1\<rparr>"
  by (auto simp: suppress_output_def Let_def split: if_splits option.splits)

subsection \<open>The decimator\<close>

text \<open>
  C1. Whenever \<open>bf_report_bb_tallies\<close> is called and output is not suppressed, it
  returns normally and leaves \<open>global_totals\<close> as it was. If the incremented merge count
  reaches \<open>bf_bb_merge\<close>, it appends (after the header, on the first call) exactly one
  \<open>BYFL_BB\<close> record and nothing else. The record holds, field by field, \<open>global_totals\<close>
  minus \<open>prev_global_totals\<close>: bytes loaded and stored, load and store instructions,
  flops and flop bits; with \<open>bf_all_ops\<close> also the operations and their bits; with
  \<open>bf_types\<close> as well, the eight per-type load counts and the eight per-type store
  counts. The call then sets \<open>num_merged\<close> to zero and copies \<open>global_totals\<close> into
  \<open>prev_global_totals\<close>. Otherwise it appends no record, keeps \<open>prev_global_totals\<close> and
  only counts the block.
\<close>

theorem report_bb_tallies_decimation:
  assumes "suppress_output getenv s = Inr (False, s1)"
  shows "\<exists>s'. bf_report_bb_tallies cfg getenv s = Inr s' \<and>
           global_totals s' = global_totals s \<and>
           (let G = global_totals s; P = prev_global_totals s;
                header = (if showed_header s then [] else [BYFL_BB_HEADER (bb_header cfg)])
            in
            if bf_bb_merge cfg \<le> num_merged s + 1 then
              cout s' =
                cout s @ header @
                [BYFL_BB
                   ([loads G - loads P, stores G - stores P, load_ins G - load_ins P,
                     store_ins G - store_ins P, flops G - flops P, fp_bits G - fp_bits P] @
                    (if bf_all_ops cfg = 0 then []
                     else [ops G - ops P, op_bits G - op_bits P] @
                       (if bf_types cfg = 0 then []
                        else [load_float_ins G - load_float_ins P,
                              load_double_ins G - load_double_ins P,
                              load_int8_ins G - load_int8_ins P,
                              load_int16_ins G - load_int16_ins P,
                              load_int32_ins G - load_int32_ins P,
                              load_int64_ins G - load_int64_ins P,
                              load_ptr_ins G - load_ptr_ins P,
                              load_other_type_ins G - load_other_type_ins P,
                              store_float_ins G - store_float_ins P,
                              store_double_ins G - store_double_ins P,
                              store_int8_ins G - store_int8_ins P,
                              store_int16_ins G - store_int16_ins P,
                              store_int32_ins G - store_int32_ins P,
                              store_int64_ins G - store_int64_ins P,
                              store_ptr_ins G - store_ptr_ins P,
                              store_other_type_ins G - store_other_type_ins P])))] \<and>
              num_merged s' = 0 \<and> prev_global_totals s' = global_totals s
            else
              cout s' = cout s @ header \<and>
              num_merged s' = num_merged s + 1 \<and>
              prev_global_totals s' = prev_global_totals s)"
proof -
  from assms have s1: "s1 = s\<lparr>output_v := output_v s1\<rparr>"
    by (rule suppress_output_state)
  have [simp]: "showed_header s1 = showed_header s" "cout s1 = cout s"
    "num_merged s1 = num_merged s" "global_totals s1 = global_totals s"
    "prev_global_totals s1 = prev_global_totals s"
    by (subst s1, simp)+
  show ?thesis
    by (simp add: bf_report_bb_tallies_def assms Let_def bb_row_def difference_def)
qed

text \<open>
  With a window of two blocks: the first report prints only the header, the second
  prints the delta of 7 loaded bytes and advances the snapshot. With every column
  enabled and a window of one block, the record has all 24 deltas.
\<close>

theorem report_bb_tallies_decimation_witness:
  "suppress_output no_env decimation_state
     = Inr (False, decimation_state\<lparr>output_v := SHOW\<rparr>) \<and>
   (\<exists>s'. bf_report_bb_tallies example_config no_env decimation_state = Inr s' \<and>
      cout s' = [BYFL_BB_HEADER (bb_header example_config)] \<and>
      num_merged s' = 1 \<and> prev_global_totals s' = zero_counters) \<and>
   suppress_output no_env (decimation_state\<lparr>output_v := SHOW, num_merged := 1\<rparr>)
     = Inr (False, decimation_state\<lparr>output_v := SHOW, num_merged := 1\<rparr>) \<and>
   (\<exists>s'. bf_report_bb_tallies example_config no_env
            (decimation_state\<lparr>output_v := SHOW, num_merged := 1\<rparr>) = Inr s' \<and>
      cout s' = [BYFL_BB_HEADER (bb_header example_config), BYFL_BB [7, 0, 0, 0, 0, 0]] \<and>
      num_merged s' = 0 \<and> prev_global_totals s' = zero_counters\<lparr>loads := 7\<rparr>) \<and>
   suppress_output no_env typed_state = Inr (False, typed_state) \<and>
   (\<exists>s'. bf_report_bb_tallies types_config no_env typed_state = Inr s' \<and>
      cout s' = [BYFL_BB [8, 0, 2, 0, 0, 0, 3, 96,
                          0, 0, 0, 0, 2, 0, 0, 0, 0, 0, 0, 0, 0, 0, 0, 0]] \<and>
      num_merged s' = 0 \<and> prev_global_totals s' = global_totals typed_state)"
proof -
  have h1: "suppress_output no_env decimation_state
              = Inr (False, decimation_state\<lparr>output_v := SHOW\<rparr>)"
    by (simp add: suppress_output_def no_env_def decimation_state_def initialize_byfl_def
        bf_push_basic_block_def allocate_def static_state_def)
  have h2: "suppress_output no_env (decimation_state\<lparr>output_v := SHOW, num_merged := 1\<rparr>)
              = Inr (False, decimation_state\<lparr>output_v := SHOW, num_merged := 1\<rparr>)"
    by (simp add: suppress_output_def no_env_def decimation_state_def initialize_byfl_def
        bf_push_basic_block_def allocate_def static_state_def)
  have h3: "suppress_output no_env typed_state = Inr (False, typed_state)"
    by (simp add: suppress_output_def no_env_def typed_state_def initialize_byfl_def
        bf_push_basic_block_def allocate_def static_state_def)
  have vals: "num_merged decimation_state = 0" "cout decimation_state = []"
    "\<not> showed_header decimation_state"
    "global_totals decimation_state = zero_counters\<lparr>loads := 7\<rparr>"
    "prev_global_totals decimation_state = zero_counters"
    by (simp_all add: decimation_state_def initialize_byfl_def bf_push_basic_block_def
        allocate_def static_state_def)
  have tvals: "num_merged typed_state = 0" "cout typed_state = []"
    "showed_header typed_state"
    "global_totals typed_state = zero_counters\<lparr>loads := 12, load_ins := 3,
        load_int32_ins := 3, ops := 5, op_bits := 160\<rparr>"
    "prev_global_totals typed_state = zero_counters\<lparr>loads := 4, load_ins := 1,
        load_int32_ins := 1, ops := 2, op_bits := 64\<rparr>"
    by (simp_all add: typed_state_def initialize_byfl_def bf_push_basic_block_def
        allocate_def static_state_def)
  have cfgs: "bf_bb_merge example_config = 2" "bf_all_ops example_config = 0"
    "bf_bb_merge types_config = 1" "bf_all_ops types_config = 1" "bf_types types_config = 1"
    by (simp_all add: example_config_def types_config_def)
  from report_bb_tallies_decimation [OF h1, of example_config]
  have a: "\<exists>s'. bf_report_bb_tallies example_config no_env decimation_state = Inr s' \<and>
      cout s' = [BYFL_BB_HEADER (bb_header example_config)] \<and>
      num_merged s' = 1 \<and> prev_global_totals s' = zero_counters"
    by (auto simp add: vals cfgs word_le_nat_alt Let_def)
  from report_bb_tallies_decimation [OF h2, of example_config]
  have b: "\<exists>s'. bf_report_bb_tallies example_config no_env
            (decimation_state\<lparr>output_v := SHOW, num_merged := 1\<rparr>) = Inr s' \<and>
      cout s' = [BYFL_BB_HEADER (bb_header example_config), BYFL_BB [7, 0, 0, 0, 0, 0]] \<and>
      num_merged s' = 0 \<and> prev_global_totals s' = zero_counters\<lparr>loads := 7\<rparr>"
    by (auto simp add: vals cfgs word_le_nat_alt Let_def zero_counters_def)
  from report_bb_tallies_decimation [OF h3, of types_config]
  have c: "\<exists>s'. bf_report_bb_tallies types_config no_env typed_state = Inr s' \<and>
      cout s' = [BYFL_BB [8, 0, 2, 0, 0, 0, 3, 96,
                          0, 0, 0, 0, 2, 0, 0, 0, 0, 0, 0, 0, 0, 0, 0, 0]] \<and>
      num_merged s' = 0 \<and> prev_global_totals s' = global_totals typed_state"
    by (auto simp add: tvals cfgs word_le_nat_alt Let_def zero_counters_def)
  from h1 a h2 b h3 c show ?thesis by blast
qed

subsection \<open>Flushing the scalar tallies\<close>

text \<open>
  C2 (as amended). When the basic-block stack is not empty, \<open>bf_accumulate_bb_tallies\<close>
  returns normally and adds to every counter of the top frame exactly the current value
  of the matching thread-local scalar (and 1 to \<open>cond_brs\<close> for a conditional end, 1 to
  \<open>b_blocks\<close> for any end); the frames below are untouched. It leaves the scalars as they
  are: clearing them is left to the instrumented code.
\<close>

theorem accumulate_bb_tallies_flush:
  assumes "bb_totals s = bb # rest"
  shows "\<exists>s'. bf_accumulate_bb_tallies h e s = Inr s' \<and>
           tallies s' = tallies s \<and>
           bb_totals s' =
             \<lparr>loads = loads bb + bf_load_count (tallies s),
              stores = stores bb + bf_store_count (tallies s),
              load_ins = load_ins bb + bf_load_ins_count (tallies s),
              load_float_ins = load_float_ins bb + bf_load_float_ins_count (tallies s),
              load_double_ins = load_double_ins bb + bf_load_double_ins_count (tallies s),
              load_int8_ins = load_int8_ins bb + bf_load_int8_ins_count (tallies s),
              load_int16_ins = load_int16_ins bb + bf_load_int16_ins_count (tallies s),
              load_int32_ins = load_int32_ins bb + bf_load_int32_ins_count (tallies s),
              load_int64_ins = load_int64_ins bb + bf_load_int64_ins_count (tallies s),
              load_ptr_ins = load_ptr_ins bb + bf_load_ptr_ins_count (tallies s),
              load_other_type_ins =
                load_other_type_ins bb + bf_load_other_type_ins_count (tallies s),
              store_ins = store_ins bb + bf_store_ins_count (tallies s),
              store_float_ins = store_float_ins bb + bf_store_float_ins_count (tallies s),
              store_double_ins = store_double_ins bb + bf_store_double_ins_count (tallies s),
              store_int8_ins = store_int8_ins bb + bf_store_int8_ins_count (tallies s),
              store_int16_ins = store_int16_ins bb + bf_store_int16_ins_count (tallies s),
              store_int32_ins = store_int32_ins bb + bf_store_int32_ins_count (tallies s),
              store_int64_ins = store_int64_ins bb + bf_store_int64_ins_count (tallies s),
              store_ptr_ins = store_ptr_ins bb + bf_store_ptr_ins_count (tallies s),
              store_other_type_ins =
                store_other_type_ins bb + bf_store_other_type_ins_count (tallies s),
              flops = flops bb + bf_flop_count (tallies s),
              fp_bits = fp_bits bb + bf_fp_bits_count (tallies s),
              ops = ops bb + bf_op_count (tallies s),
              op_bits = op_bits bb + bf_op_bits_count (tallies s),
              cond_brs = cond_brs bb + (if e = BB_END_COND then 1 else 0),
              b_blocks = b_blocks bb + (if e = BB_NOT_END then 0 else 1)\<rparr> # rest"
  using assms
  by (auto simp: bf_accumulate_bb_tallies_def Let_def accumulate_def tally_args_def
      is_cond_def is_end_def split: option.splits)

text \<open>One load of one byte is flushed into the frame pushed by the initialization.\<close>

theorem accumulate_bb_tallies_flush_witness:
  "bb_totals flush_state = [zero_counters] \<and>
   (\<exists>s'. bf_accumulate_bb_tallies None BB_END_COND flush_state = Inr s' \<and>
      tallies s' = zero_tally\<lparr>bf_load_count := 1, bf_load_ins_count := 1\<rparr> \<and>
      bb_totals s' = [zero_counters\<lparr>loads := 1, load_ins := 1, cond_brs := 1, b_blocks := 1\<rparr>])"
proof -
  have h: "bb_totals flush_state = [zero_counters]"
    by (simp add: flush_state_def init_defs)
  have t: "tallies flush_state = zero_tally\<lparr>bf_load_count := 1, bf_load_ins_count := 1\<rparr>"
    by (simp add: flush_state_def init_defs)
  from accumulate_bb_tallies_flush [OF h, of None BB_END_COND]
  have "\<exists>s'. bf_accumulate_bb_tallies None BB_END_COND flush_state = Inr s' \<and>
      tallies s' = zero_tally\<lparr>bf_load_count := 1, bf_load_ins_count := 1\<rparr> \<and>
      bb_totals s' = [zero_counters\<lparr>loads := 1, load_ins := 1, cond_brs := 1, b_blocks := 1\<rparr>]"
    by (simp add: t) (simp add: zero_counters_def zero_tally_def)
  with h show ?thesis by blast
qed

text \<open>
  C2 as stated fails: after a flush the scalar still holds 1, and a second flush right
  after the first adds the same byte again, so the frame holds 2.
\<close>

theorem flush_does_not_zero_counterexample:
  "(case bf_accumulate_bb_tallies None BB_NOT_END flush_state of
      Inl err \<Rightarrow> False
    | Inr s1 \<Rightarrow>
        bf_load_count (tallies s1) = 1 \<and> map loads (bb_totals s1) = [1] \<and>
        (case bf_accumulate_bb_tallies None BB_NOT_END s1 of
           Inl err \<Rightarrow> False
         | Inr s2 \<Rightarrow> map loads (bb_totals s2) = [2]))"
  by (simp add: flush_state_def init_defs bf_accumulate_bb_tallies_def Let_def
      accumulate_def tally_args_def is_cond_def is_end_def)

subsection \<open>Derived ratios in the summary\<close>

text \<open>
  C3 does not hold of the code. \<open>report_totals\<close> always prints the line
  "bytes loaded per byte stored", whatever the number of stored bytes: for counters that
  are all zero the line is printed with denominator 0.
\<close>

theorem report_totals_unguarded_ratio:
  "BYFL_SUMMARY partition_tag
     [Ratio (loads counter_totals) 1 (stores counter_totals),
      Str '' bytes loaded per byte stored'']
     \<in> set (report_totals cfg ext partition_tag counter_totals)
   \<and> BYFL_SUMMARY None [Ratio 0 1 0, Str '' bytes loaded per byte stored'']
     \<in> set (report_totals cfg ext None zero_counters)"
  by (simp add: report_totals_def Let_def zero_counters_def)

subsection \<open>The call stack\<close>

text \<open>
  C5. On a new call stack, pushing \<open>f1\<close>, \<open>f2\<close>, \<open>f3\<close> returns the keys \<open>f1\<close>,
  \<open>f2 f1\<close> and \<open>f3 f2 f1\<close>; popping then returns \<open>f2 f1\<close>, then \<open>f1\<close>, and popping
  the last entry returns the marker \<open>[EMPTY]\<close>.
\<close>

theorem call_stack_attribution_key:
  "push_function f1 new_CallStack = (f1, \<lparr>complete_call_stack = [f1], max_depth = 1\<rparr>) \<and>
   push_function f2 \<lparr>complete_call_stack = [f1], max_depth = 1\<rparr>
     = (f2 @ '' '' @ f1, \<lparr>complete_call_stack = [f2 @ '' '' @ f1, f1], max_depth = 2\<rparr>) \<and>
   push_function f3 \<lparr>complete_call_stack = [f2 @ '' '' @ f1, f1], max_depth = 2\<rparr>
     = (f3 @ '' '' @ f2 @ '' '' @ f1,
        \<lparr>complete_call_stack = [f3 @ '' '' @ f2 @ '' '' @ f1, f2 @ '' '' @ f1, f1],
         max_depth = 3\<rparr>) \<and>
   pop_function
      \<lparr>complete_call_stack = [f3 @ '' '' @ f2 @ '' '' @ f1, f2 @ '' '' @ f1, f1],
       max_depth = 3\<rparr>
     = Inr (f2 @ '' '' @ f1, \<lparr>complete_call_stack = [f2 @ '' '' @ f1, f1], max_depth = 3\<rparr>) \<and>
   pop_function \<lparr>complete_call_stack = [f2 @ '' '' @ f1, f1], max_depth = 3\<rparr>
     = Inr (f1, \<lparr>complete_call_stack = [f1], max_depth = 3\<rparr>) \<and>
   pop_function \<lparr>complete_call_stack = [f1], max_depth = 3\<rparr>
     = Inr (''[EMPTY]'', \<lparr>complete_call_stack = [], max_depth = 3\<rparr>)"
  by (simp add: push_function_def pop_function_def new_CallStack_def
      bf_string_to_symbol_def Let_def)

text \<open>
  C8 does not hold of the code. Pushing two functions brings \<open>max_depth\<close> to 2 and the
  two pops keep it; the next push finds the stack empty and sets \<open>max_depth\<close> to 1,
  below the depth already reached.
\<close>

theorem max_depth_reset_on_empty_stack:
  "push_function a new_CallStack = (a, \<lparr>complete_call_stack = [a], max_depth = 1\<rparr>) \<and>
   push_function b \<lparr>complete_call_stack = [a], max_depth = 1\<rparr>
     = (b @ '' '' @ a, \<lparr>complete_call_stack = [b @ '' '' @ a, a], max_depth = 2\<rparr>) \<and>
   pop_function \<lparr>complete_call_stack = [b @ '' '' @ a, a], max_depth = 2\<rparr>
     = Inr (a, \<lparr>complete_call_stack = [a], max_depth = 2\<rparr>) \<and>
   pop_function \<lparr>complete_call_stack = [a], max_depth = 2\<rparr>
     = Inr (''[EMPTY]'', \<lparr>complete_call_stack = [], max_depth = 2\<rparr>) \<and>
   push_function c \<lparr>complete_call_stack = [], max_depth = 2\<rparr>
     = (c, \<lparr>complete_call_stack = [c], max_depth = 1\<rparr>)"
  by (simp add: push_function_def pop_function_def new_CallStack_def
      bf_string_to_symbol_def Let_def)

subsection \<open>Effect of each operation on the rest of the state\<close>

lemma suppress_output_frame:
  assumes "suppress_output getenv s = Inr (b, s1)"
  shows "bb_totals s1 = bb_totals s" "call_stack s1 = call_stack s"
    "user_defined_totals s1 = user_defined_totals s" "global_totals s1 = global_totals s"
    "func_call_tallies s1 = func_call_tallies s" "per_func_totals s1 = per_func_totals s"
    "tallies s1 = tallies s" "cout s1 = cout s" "showed_header s1 = showed_header s"
    "num_merged s1 = num_merged s" "prev_global_totals s1 = prev_global_totals s"
    "all_constructors_called s1 = all_constructors_called s"
  by (subst suppress_output_state [OF assms], simp)+

lemma report_bb_frame:
  assumes "bf_report_bb_tallies cfg getenv s = Inr s'"
  shows "bb_totals s' = bb_totals s" "call_stack s' = call_stack s"
    "user_defined_totals s' = user_defined_totals s" "global_totals s' = global_totals s"
    "func_call_tallies s' = func_call_tallies s"
proof -
  from assms obtain b s1 where so: "suppress_output getenv s = Inr (b, s1)"
    by (cases "suppress_output getenv s") (auto simp: bf_report_bb_tallies_def)
  note fr = suppress_output_frame [OF so]
  from assms so fr show "bb_totals s' = bb_totals s" 
    by (auto simp add: bf_report_bb_tallies_def Let_def split: if_splits)
  from assms so fr show "call_stack s' = call_stack s" 
    by (auto simp add: bf_report_bb_tallies_def Let_def split: if_splits)
  from assms so fr show "user_defined_totals s' = user_defined_totals s" 
    by (auto simp add: bf_report_bb_tallies_def Let_def split: if_splits)
  from assms so fr show "global_totals s' = global_totals s" 
    by (auto simp add: bf_report_bb_tallies_def Let_def split: if_splits)
  from assms so fr show "func_call_tallies s' = func_call_tallies s" 
    by (auto simp add: bf_report_bb_tallies_def Let_def split: if_splits)
qed

lemma report_bb_not_empty_stack:
  "bf_report_bb_tallies cfg getenv s \<noteq> Inl EmptyStack"
proof (cases "suppress_output getenv s")
  case (Inl err)
  then have "err \<noteq> EmptyStack"
    by (auto simp: suppress_output_def Let_def split: if_splits option.splits)
  with Inl show ?thesis by (simp add: bf_report_bb_tallies_def)
next
  case (Inr r)
  then show ?thesis
    by (cases r) (simp add: bf_report_bb_tallies_def Let_def)
qed


lemma push_function_stack:
  "complete_call_stack (snd (push_function f cs)) = fst (push_function f cs) # complete_call_stack cs"
  by (simp add: push_function_def Let_def)

lemma push_function_key:
  "fst (push_function f cs) =
     (case complete_call_stack cs of [] \<Rightarrow> f | anc # below \<Rightarrow> f @ '' '' @ anc)"
  by (simp add: push_function_def Let_def bf_string_to_symbol_def split: list.splits)

lemma push_basic_block_frame:
  "length (bb_totals (bf_push_basic_block s)) = Suc (length (bb_totals s))"
  "call_stack (bf_push_basic_block s) = call_stack s"
  "user_defined_totals (bf_push_basic_block s) = user_defined_totals s"
  "global_totals (bf_push_basic_block s) = global_totals s"
  "func_call_tallies (bf_push_basic_block s) = func_call_tallies s"
  by (simp_all add: bf_push_basic_block_def split: prod.split)

lemma pop_basic_block_frame:
  assumes "bf_pop_basic_block s = Inr s'"
  shows "length (bb_totals s') = length (bb_totals s) - 1"
    "call_stack s' = call_stack s"
    "user_defined_totals s' = user_defined_totals s"
    "global_totals s' = global_totals s"
    "func_call_tallies s' = func_call_tallies s"
  using assms by (auto simp: bf_pop_basic_block_def split: list.splits)

lemma incr_func_tally_frame:
  "bb_totals (bf_incr_func_tally f s) = bb_totals s"
  "call_stack (bf_incr_func_tally f s) = call_stack s"
  "user_defined_totals (bf_incr_func_tally f s) = user_defined_totals s"
  "global_totals (bf_incr_func_tally f s) = global_totals s"
  by (simp_all add: bf_incr_func_tally_def Let_def)

lemma push_function_frame:
  "bb_totals (bf_push_function f s) = bb_totals s"
  "call_stack (bf_push_function f s) = snd (push_function f (call_stack s))"
  "user_defined_totals (bf_push_function f s) = user_defined_totals s"
  "global_totals (bf_push_function f s) = global_totals s"
  by (simp_all add: bf_push_function_def Let_def split: prod.split)

lemma pop_function_frame:
  assumes "bf_pop_function s = Inr s'"
  shows "bb_totals s' = bb_totals s"
    "complete_call_stack (call_stack s') = tl (complete_call_stack (call_stack s))"
    "user_defined_totals s' = user_defined_totals s"
    "global_totals s' = global_totals s"
    "func_call_tallies s' = func_call_tallies s"
  using assms
  by (auto simp: bf_pop_function_def pop_function_def split: list.splits)

lemma accumulate_bb_frame:
  assumes "bf_accumulate_bb_tallies h e s = Inr s'"
  shows "length (bb_totals s') = length (bb_totals s)"
    "call_stack s' = call_stack s"
    "func_call_tallies s' = func_call_tallies s"
  using assms
  by (auto simp: bf_accumulate_bb_tallies_def Let_def
      split: list.splits option.splits if_splits)

lemma reset_bb_frame:
  assumes "bf_reset_bb_tallies s = Inr s'"
  shows "length (bb_totals s') = length (bb_totals s)"
    "call_stack s' = call_stack s"
    "user_defined_totals s' = user_defined_totals s"
    "global_totals s' = global_totals s"
    "func_call_tallies s' = func_call_tallies s"
  using assms by (auto simp: bf_reset_bb_tallies_def split: list.splits)

lemma assoc_counters_frame:
  "bb_totals (bf_assoc_counters_with_func cfg f e s) = bb_totals s"
  "call_stack (bf_assoc_counters_with_func cfg f e s) = call_stack s"
  "user_defined_totals (bf_assoc_counters_with_func cfg f e s) = user_defined_totals s"
  "global_totals (bf_assoc_counters_with_func cfg f e s) = global_totals s"
  "func_call_tallies (bf_assoc_counters_with_func cfg f e s) = func_call_tallies s"
  by (simp_all add: bf_assoc_counters_with_func_def Let_def split: option.split)


lemma step_depths:
  assumes "step cfg getenv ev s = Inr s'"
  shows "length (bb_totals s') =
           (case ev of PushBasicBlock \<Rightarrow> Suc (length (bb_totals s))
                     | PopBasicBlock \<Rightarrow> length (bb_totals s) - 1
                     | _ \<Rightarrow> length (bb_totals s))"
    and "length (complete_call_stack (call_stack s')) =
           (case ev of PushFunction f \<Rightarrow> Suc (length (complete_call_stack (call_stack s)))
                     | PopFunction \<Rightarrow> length (complete_call_stack (call_stack s)) - 1
                     | _ \<Rightarrow> length (complete_call_stack (call_stack s)))"
proof -
  show "length (bb_totals s') =
           (case ev of PushBasicBlock \<Rightarrow> Suc (length (bb_totals s))
                     | PopBasicBlock \<Rightarrow> length (bb_totals s) - 1
                     | _ \<Rightarrow> length (bb_totals s))"
    using assms
    by (cases ev)
       (auto simp: push_basic_block_frame pop_basic_block_frame incr_func_tally_frame
          push_function_frame pop_function_frame accumulate_bb_frame reset_bb_frame
          assoc_counters_frame report_bb_frame)
  show "length (complete_call_stack (call_stack s')) =
           (case ev of PushFunction f \<Rightarrow> Suc (length (complete_call_stack (call_stack s)))
                     | PopFunction \<Rightarrow> length (complete_call_stack (call_stack s)) - 1
                     | _ \<Rightarrow> length (complete_call_stack (call_stack s)))"
    using assms
    by (cases ev)
       (auto simp: push_basic_block_frame pop_basic_block_frame incr_func_tally_frame
          push_function_frame pop_function_frame accumulate_bb_frame reset_bb_frame
          assoc_counters_frame report_bb_frame push_function_stack)
qed

lemma step_empty_stack:
  "step cfg getenv ev s = Inl EmptyStack \<longleftrightarrow>
     (ev = PopBasicBlock \<or> ev = ResetBBTallies \<or> (\<exists>h e. ev = AccumulateBBTallies h e))
       \<and> bb_totals s = [] \<or>
     ev = PopFunction \<and> complete_call_stack (call_stack s) = []"
proof (cases ev)
  case (AccumulateBBTallies h e)
  then show ?thesis
    by (simp add: bf_accumulate_bb_tallies_def Let_def split: list.split option.split)
next
  case PopFunction
  then show ?thesis
    by (simp add: bf_pop_function_def pop_function_def split: list.split)
qed (simp_all add: bf_pop_basic_block_def bf_reset_bb_tallies_def report_bb_not_empty_stack
      split: list.split)

lemma run_disciplined:
  "disciplined b c evs \<Longrightarrow> b < length (bb_totals s) \<Longrightarrow>
   c \<le> length (complete_call_stack (call_stack s)) \<Longrightarrow>
   run cfg getenv evs s \<noteq> Inl EmptyStack"
proof (induction evs arbitrary: b c s)
  case Nil
  then show ?case by simp
next
  case (Cons ev evs)
  show ?case
  proof (cases "step cfg getenv ev s")
    case (Inl err)
    have "err \<noteq> EmptyStack"
    proof
      assume "err = EmptyStack"
      with Inl have "step cfg getenv ev s = Inl EmptyStack" by simp
      then show False
        using Cons.prems by (auto simp: step_empty_stack)
    qed
    with Inl show ?thesis by simp
  next
    case (Inr s')
    note d = step_depths [OF Inr]
    have "\<exists>b' c'. disciplined b' c' evs \<and> b' < length (bb_totals s') \<and>
            c' \<le> length (complete_call_stack (call_stack s'))"
    proof (cases ev)
      case PushBasicBlock
      with Cons.prems d have "disciplined (Suc b) c evs \<and> Suc b < length (bb_totals s') \<and>
            c \<le> length (complete_call_stack (call_stack s'))" by simp
      then show ?thesis by blast
    next
      case PopBasicBlock
      with Cons.prems d have "disciplined (b - 1) c evs \<and> b - 1 < length (bb_totals s') \<and>
            c \<le> length (complete_call_stack (call_stack s'))" by auto
      then show ?thesis by blast
    next
      case (PushFunction f)
      with Cons.prems d have "disciplined b (Suc c) evs \<and> b < length (bb_totals s') \<and>
            Suc c \<le> length (complete_call_stack (call_stack s'))" by simp
      then show ?thesis by blast
    next
      case PopFunction
      with Cons.prems d have "disciplined b (c - 1) evs \<and> b < length (bb_totals s') \<and>
            c - 1 \<le> length (complete_call_stack (call_stack s'))" by auto
      then show ?thesis by blast
    qed (insert Cons.prems d, (rule exI [of _ b], rule exI [of _ c], simp)+)
    then obtain b' c' where "disciplined b' c' evs" "b' < length (bb_totals s')"
        "c' \<le> length (complete_call_stack (call_stack s'))" by blast
    then have "run cfg getenv evs s' \<noteq> Inl EmptyStack" by (rule Cons.IH)
    with Inr show ?thesis by simp
  qed
qed


lemma accumulate_zero_counters: "accumulate zero_counters c = c"
  by (simp add: accumulate_def zero_counters_def)

subsection \<open>Stack discipline\<close>

text \<open>
  C10. Popping a basic-block frame, flushing into the top frame, resetting the top frame
  and popping a function name fail, with the empty-stack error and no other, exactly
  when their stack is empty. In a run after \<open>initialize_byfl\<close> (which pushes the first
  frame) in which every pop has a matching earlier push, the empty-stack error is never
  reached.
\<close>

theorem stack_discipline:
  "(bf_pop_basic_block s = Inl EmptyStack \<longleftrightarrow> bb_totals s = []) \<and>
   (isl (bf_pop_basic_block s) \<longleftrightarrow> bb_totals s = []) \<and>
   (bf_accumulate_bb_tallies h e s = Inl EmptyStack \<longleftrightarrow> bb_totals s = []) \<and>
   (isl (bf_accumulate_bb_tallies h e s) \<longleftrightarrow> bb_totals s = []) \<and>
   (bf_reset_bb_tallies s = Inl EmptyStack \<longleftrightarrow> bb_totals s = []) \<and>
   (isl (bf_reset_bb_tallies s) \<longleftrightarrow> bb_totals s = []) \<and>
   (pop_function cs = Inl EmptyStack \<longleftrightarrow> complete_call_stack cs = []) \<and>
   (isl (pop_function cs) \<longleftrightarrow> complete_call_stack cs = []) \<and>
   (disciplined 0 0 evs \<longrightarrow> run cfg getenv evs (initialize_byfl s0) \<noteq> Inl EmptyStack)"
proof -
  have "0 < length (bb_totals (initialize_byfl s0))"
    by (simp add: initialize_byfl_def push_basic_block_frame)
  then have "disciplined 0 0 evs \<longrightarrow> run cfg getenv evs (initialize_byfl s0) \<noteq> Inl EmptyStack"
    using run_disciplined [of 0 0 evs "initialize_byfl s0"] by simp
  moreover have "(bf_accumulate_bb_tallies h e s = Inl EmptyStack \<longleftrightarrow> bb_totals s = []) \<and>
   (isl (bf_accumulate_bb_tallies h e s) \<longleftrightarrow> bb_totals s = [])"
    by (simp add: bf_accumulate_bb_tallies_def Let_def split: list.split option.split)
  ultimately show ?thesis
    by (simp add: bf_pop_basic_block_def bf_reset_bb_tallies_def pop_function_def
        split: list.split)
qed

text \<open>A disciplined run, and the two sides of the equivalence for \<open>bf_pop_basic_block\<close>.\<close>

theorem stack_discipline_witness:
  "disciplined 0 0 discipline_events \<and>
   run example_config no_env discipline_events (initialize_byfl static_state) \<noteq> Inl EmptyStack \<and>
   bf_pop_basic_block static_state = Inl EmptyStack \<and>
   \<not> isl (bf_pop_basic_block (initialize_byfl static_state))"
proof -
  have d: "disciplined 0 0 discipline_events"
    by (simp add: discipline_events_def)
  have e: "bb_totals static_state = []" "bb_totals (initialize_byfl static_state) \<noteq> []"
    by (simp_all add: init_defs)
  from stack_discipline [of static_state None BB_NOT_END new_CallStack discipline_events
      example_config no_env static_state]
    stack_discipline [of "initialize_byfl static_state" None BB_NOT_END new_CallStack
      discipline_events example_config no_env static_state]
  show ?thesis using d e by simp
qed

lemma step_partition:
  assumes "step cfg getenv ev s = Inr s'"
    and "\<And>h e. ev = AccumulateBBTallies h e \<Longrightarrow> e = BB_NOT_END \<or> h = Some A"
    and "partition_is_global A s"
  shows "partition_is_global A s'"
proof (cases ev)
  case (AccumulateBBTallies h e)
  with assms(1) have acc: "bf_accumulate_bb_tallies h e s = Inr s'" by simp
  then obtain bb rest where bb: "bb_totals s = bb # rest"
    by (cases "bb_totals s") (simp_all add: bf_accumulate_bb_tallies_def)
  show ?thesis
  proof (cases "e = BB_NOT_END")
    case True
    with acc bb have "user_defined_totals s' = user_defined_totals s"
        "global_totals s' = global_totals s"
      by (auto simp: bf_accumulate_bb_tallies_def Let_def)
    with assms(3) show ?thesis by (simp add: partition_is_global_def)
  next
    case False
    with assms(2) AccumulateBBTallies have h: "h = Some A" by blast
    from assms(3) show ?thesis
      unfolding partition_is_global_def
    proof
      assume "user_defined_totals s = [(A, global_totals s)]"
      with acc bb False h show "user_defined_totals s' = [(A, global_totals s')] \<or>
          user_defined_totals s' = [] \<and> global_totals s' = zero_counters"
        by (auto simp: bf_accumulate_bb_tallies_def Let_def bf_string_to_symbol_opt_def
            bf_string_to_symbol_def)
    next
      assume "user_defined_totals s = [] \<and> global_totals s = zero_counters"
      with acc bb False h show "user_defined_totals s' = [(A, global_totals s')] \<or>
          user_defined_totals s' = [] \<and> global_totals s' = zero_counters"
        by (auto simp: bf_accumulate_bb_tallies_def Let_def bf_string_to_symbol_opt_def
            bf_string_to_symbol_def accumulate_zero_counters)
    qed
  qed
qed (insert assms(1,3),
     auto simp: partition_is_global_def push_basic_block_frame pop_basic_block_frame
       incr_func_tally_frame push_function_frame pop_function_frame reset_bb_frame
       assoc_counters_frame report_bb_frame)

lemma run_partition:
  "hook_always (Some A) evs \<Longrightarrow> partition_is_global A s \<Longrightarrow>
   run cfg getenv evs s = Inr s' \<Longrightarrow> partition_is_global A s'"
proof (induction evs arbitrary: s)
  case Nil
  then show ?case by simp
next
  case (Cons ev evs)
  from Cons.prems(3) obtain s1 where s1: "step cfg getenv ev s = Inr s1"
      and r: "run cfg getenv evs s1 = Inr s'"
    by (cases "step cfg getenv ev s") simp_all
  from Cons.prems(1) have hooks: "\<And>h e. ev = AccumulateBBTallies h e \<Longrightarrow> e = BB_NOT_END \<or> h = Some A"
    and rest: "hook_always (Some A) evs"
    by (cases ev; simp)+
  from s1 hooks Cons.prems(2) have "partition_is_global A s1" by (rule step_partition)
  with rest show ?case using r by (rule Cons.IH)
qed


lemma step_no_partition:
  assumes "step cfg getenv ev s = Inr s'"
    and "\<And>h e. ev = AccumulateBBTallies h e \<Longrightarrow> e = BB_NOT_END \<or> h = None"
    and "user_defined_totals s = []"
  shows "user_defined_totals s' = []"
proof (cases ev)
  case (AccumulateBBTallies h e)
  with assms(1) have acc: "bf_accumulate_bb_tallies h e s = Inr s'" by simp
  then obtain bb rest where bb: "bb_totals s = bb # rest"
    by (cases "bb_totals s") (simp_all add: bf_accumulate_bb_tallies_def)
  from assms(2) AccumulateBBTallies have "e = BB_NOT_END \<or> h = None" by blast
  with acc bb assms(3) show ?thesis
    by (auto simp: bf_accumulate_bb_tallies_def Let_def bf_string_to_symbol_opt_def
        split: if_splits)
qed (insert assms(1,3),
     auto simp: push_basic_block_frame pop_basic_block_frame
       incr_func_tally_frame push_function_frame pop_function_frame reset_bb_frame
       assoc_counters_frame report_bb_frame)

lemma run_no_partition:
  "hook_always None evs \<Longrightarrow> user_defined_totals s = [] \<Longrightarrow>
   run cfg getenv evs s = Inr s' \<Longrightarrow> user_defined_totals s' = []"
proof (induction evs arbitrary: s)
  case Nil
  then show ?case by simp
next
  case (Cons ev evs)
  from Cons.prems(3) obtain s1 where s1: "step cfg getenv ev s = Inr s1"
      and r: "run cfg getenv evs s1 = Inr s'"
    by (cases "step cfg getenv ev s") simp_all
  from Cons.prems(1) have hooks: "\<And>h e. ev = AccumulateBBTallies h e \<Longrightarrow> e = BB_NOT_END \<or> h = None"
    and rest: "hook_always None evs"
    by (cases ev; simp)+
  from s1 hooks Cons.prems(2) have "user_defined_totals s1 = []" by (rule step_no_partition)
  with rest show ?case using r by (rule Cons.IH)
qed

lemma update_not_empty: "AList.update k v al \<noteq> []"
  by (cases al) auto

lemma step_partition_kept:
  assumes "step cfg getenv ev s = Inr s'" and "user_defined_totals s \<noteq> []"
  shows "user_defined_totals s' \<noteq> []"
proof (cases ev)
  case (AccumulateBBTallies h e)
  with assms show ?thesis
    by (auto simp: bf_accumulate_bb_tallies_def Let_def update_not_empty
        split: list.splits option.splits if_splits)
qed (insert assms,
     auto simp: push_basic_block_frame pop_basic_block_frame
       incr_func_tally_frame push_function_frame pop_function_frame reset_bb_frame
       assoc_counters_frame report_bb_frame)

lemma accumulate_bb_creates:
  assumes "bf_accumulate_bb_tallies (Some A) e s = Inr s'" and "e \<noteq> BB_NOT_END"
  shows "user_defined_totals s' \<noteq> []"
  using assms
  by (auto simp: bf_accumulate_bb_tallies_def Let_def update_not_empty
      bf_string_to_symbol_opt_def split: list.splits option.splits)

lemma run_partition_exists:
  "user_defined_totals s \<noteq> [] \<or> block_terminated evs \<and> hook_always (Some A) evs \<Longrightarrow>
   run cfg getenv evs s = Inr s' \<Longrightarrow> user_defined_totals s' \<noteq> []"
proof (induction evs arbitrary: s)
  case Nil
  then show ?case by simp
next
  case (Cons ev evs)
  from Cons.prems(2) obtain s1 where s1: "step cfg getenv ev s = Inr s1"
      and r: "run cfg getenv evs s1 = Inr s'"
    by (cases "step cfg getenv ev s") simp_all
  have "user_defined_totals s1 \<noteq> [] \<or> block_terminated evs \<and> hook_always (Some A) evs"
  proof (cases "user_defined_totals s = []")
    case False
    with s1 show ?thesis by (simp add: step_partition_kept)
  next
    case True
    with Cons.prems(1) have bt: "block_terminated (ev # evs)"
      and ha: "hook_always (Some A) (ev # evs)" by simp_all
    show ?thesis
    proof (cases ev)
      case (AccumulateBBTallies h e)
      show ?thesis
      proof (cases "e = BB_NOT_END")
        case True
        with bt ha AccumulateBBTallies show ?thesis by simp
      next
        case False
        with ha AccumulateBBTallies have "h = Some A" by simp
        with s1 AccumulateBBTallies False show ?thesis
          by (simp add: accumulate_bb_creates)
      qed
    qed (insert bt ha, simp_all)
  qed
  then show ?case using r by (rule Cons.IH)
qed

subsection \<open>Partitions\<close>

text \<open>
  C4. A flush that ends a basic block adds every counter of the block (the top frame
  after the scalars have been added to it) to \<open>global_totals\<close>; if the categorization
  hook returns the tag \<open>A\<close>, it adds the same counters to the entry of \<open>A\<close>, which
  starts as a copy of the block when \<open>A\<close> is new, and touches no other entry; if the hook
  returns \<open>NULL\<close>, the partition table is left as it is. In every state reached from the
  initial one by a run in which the hook returns \<open>A\<close> at every terminating block, the
  partition table holds the one entry \<open>A\<close>, equal to \<open>global_totals\<close> in every counter,
  or it is still empty and \<open>global_totals\<close> is zero; once a block has terminated, the
  entry exists. If the hook returns \<open>NULL\<close> at every terminating block, the partition
  table stays empty.
\<close>

theorem partition_routing:
  "(let t = tallies s0; g = global_totals s0;
        d = \<lparr>loads = loads bb + bf_load_count t,
                  stores = stores bb + bf_store_count t,
                  load_ins = load_ins bb + bf_load_ins_count t,
                  load_float_ins = load_float_ins bb + bf_load_float_ins_count t,
                  load_double_ins = load_double_ins bb + bf_load_double_ins_count t,
                  load_int8_ins = load_int8_ins bb + bf_load_int8_ins_count t,
                  load_int16_ins = load_int16_ins bb + bf_load_int16_ins_count t,
                  load_int32_ins = load_int32_ins bb + bf_load_int32_ins_count t,
                  load_int64_ins = load_int64_ins bb + bf_load_int64_ins_count t,
                  load_ptr_ins = load_ptr_ins bb + bf_load_ptr_ins_count t,
                  load_other_type_ins = load_other_type_ins bb + bf_load_other_type_ins_count t,
                  store_ins = store_ins bb + bf_store_ins_count t,
                  store_float_ins = store_float_ins bb + bf_store_float_ins_count t,
                  store_double_ins = store_double_ins bb + bf_store_double_ins_count t,
                  store_int8_ins = store_int8_ins bb + bf_store_int8_ins_count t,
                  store_int16_ins = store_int16_ins bb + bf_store_int16_ins_count t,
                  store_int32_ins = store_int32_ins bb + bf_store_int32_ins_count t,
                  store_int64_ins = store_int64_ins bb + bf_store_int64_ins_count t,
                  store_ptr_ins = store_ptr_ins bb + bf_store_ptr_ins_count t,
                  store_other_type_ins = store_other_type_ins bb + bf_store_other_type_ins_count t,
                  flops = flops bb + bf_flop_count t,
                  fp_bits = fp_bits bb + bf_fp_bits_count t,
                  ops = ops bb + bf_op_count t,
                  op_bits = op_bits bb + bf_op_bits_count t,
                  cond_brs = cond_brs bb + (if e = BB_END_COND then 1 else 0),
                  b_blocks = b_blocks bb + 1\<rparr>;
        g' = \<lparr>loads = loads g + loads d,
                   stores = stores g + stores d,
                   load_ins = load_ins g + load_ins d,
                   load_float_ins = load_float_ins g + load_float_ins d,
                   load_double_ins = load_double_ins g + load_double_ins d,
                   load_int8_ins = load_int8_ins g + load_int8_ins d,
                   load_int16_ins = load_int16_ins g + load_int16_ins d,
                   load_int32_ins = load_int32_ins g + load_int32_ins d,
                   load_int64_ins = load_int64_ins g + load_int64_ins d,
                   load_ptr_ins = load_ptr_ins g + load_ptr_ins d,
                   load_other_type_ins = load_other_type_ins g + load_other_type_ins d,
                   store_ins = store_ins g + store_ins d,
                   store_float_ins = store_float_ins g + store_float_ins d,
                   store_double_ins = store_double_ins g + store_double_ins d,
                   store_int8_ins = store_int8_ins g + store_int8_ins d,
                   store_int16_ins = store_int16_ins g + store_int16_ins d,
                   store_int32_ins = store_int32_ins g + store_int32_ins d,
                   store_int64_ins = store_int64_ins g + store_int64_ins d,
                   store_ptr_ins = store_ptr_ins g + store_ptr_ins d,
                   store_other_type_ins = store_other_type_ins g + store_other_type_ins d,
                   flops = flops g + flops d,
                   fp_bits = fp_bits g + fp_bits d,
                   ops = ops g + ops d,
                   op_bits = op_bits g + op_bits d,
                   cond_brs = cond_brs g + cond_brs d,
                   b_blocks = b_blocks g + b_blocks d\<rparr>
    in bb_totals s0 = bb # rest \<and> e \<noteq> BB_NOT_END \<longrightarrow>
         (\<exists>s'. bf_accumulate_bb_tallies (Some A) e s0 = Inr s' \<and>
             global_totals s' = g' \<and>
             user_defined_totals s' =
               AList.update A
                 (case map_of (user_defined_totals s0) A of
                    None \<Rightarrow> d
                  | Some c \<Rightarrow> \<lparr>loads = loads c + loads d,
                                 stores = stores c + stores d,
                                 load_ins = load_ins c + load_ins d,
                                 load_float_ins = load_float_ins c + load_float_ins d,
                                 load_double_ins = load_double_ins c + load_double_ins d,
                                 load_int8_ins = load_int8_ins c + load_int8_ins d,
                                 load_int16_ins = load_int16_ins c + load_int16_ins d,
                                 load_int32_ins = load_int32_ins c + load_int32_ins d,
                                 load_int64_ins = load_int64_ins c + load_int64_ins d,
                                 load_ptr_ins = load_ptr_ins c + load_ptr_ins d,
                                 load_other_type_ins = load_other_type_ins c + load_other_type_ins d,
                                 store_ins = store_ins c + store_ins d,
                                 store_float_ins = store_float_ins c + store_float_ins d,
                                 store_double_ins = store_double_ins c + store_double_ins d,
                                 store_int8_ins = store_int8_ins c + store_int8_ins d,
                                 store_int16_ins = store_int16_ins c + store_int16_ins d,
                                 store_int32_ins = store_int32_ins c + store_int32_ins d,
                                 store_int64_ins = store_int64_ins c + store_int64_ins d,
                                 store_ptr_ins = store_ptr_ins c + store_ptr_ins d,
                                 store_other_type_ins = store_other_type_ins c + store_other_type_ins d,
                                 flops = flops c + flops d,
                                 fp_bits = fp_bits c + fp_bits d,
                                 ops = ops c + ops d,
                                 op_bits = op_bits c + op_bits d,
                                 cond_brs = cond_brs c + cond_brs d,
                                 b_blocks = b_blocks c + b_blocks d\<rparr>)
                 (user_defined_totals s0)) \<and>
         (\<exists>s'. bf_accumulate_bb_tallies None e s0 = Inr s' \<and>
             global_totals s' = g' \<and>
             user_defined_totals s' = user_defined_totals s0)) \<and>
   (hook_always (Some A) evs \<and> run cfg getenv evs (initialize_byfl static_state) = Inr s \<longrightarrow>
      user_defined_totals s = [(A, global_totals s)] \<or>
      user_defined_totals s = [] \<and> global_totals s = zero_counters) \<and>
   (hook_always (Some A) evs \<and> block_terminated evs \<and>
    run cfg getenv evs (initialize_byfl static_state) = Inr s \<longrightarrow>
      user_defined_totals s = [(A, global_totals s)]) \<and>
   (hook_always None evs \<and> run cfg getenv evs (initialize_byfl static_state) = Inr s \<longrightarrow>
      user_defined_totals s = [])"
proof -
  have step: "(let t = tallies s0; g = global_totals s0;
        d = \<lparr>loads = loads bb + bf_load_count t,
                  stores = stores bb + bf_store_count t,
                  load_ins = load_ins bb + bf_load_ins_count t,
                  load_float_ins = load_float_ins bb + bf_load_float_ins_count t,
                  load_double_ins = load_double_ins bb + bf_load_double_ins_count t,
                  load_int8_ins = load_int8_ins bb + bf_load_int8_ins_count t,
                  load_int16_ins = load_int16_ins bb + bf_load_int16_ins_count t,
                  load_int32_ins = load_int32_ins bb + bf_load_int32_ins_count t,
                  load_int64_ins = load_int64_ins bb + bf_load_int64_ins_count t,
                  load_ptr_ins = load_ptr_ins bb + bf_load_ptr_ins_count t,
                  load_other_type_ins = load_other_type_ins bb + bf_load_other_type_ins_count t,
                  store_ins = store_ins bb + bf_store_ins_count t,
                  store_float_ins = store_float_ins bb + bf_store_float_ins_count t,
                  store_double_ins = store_double_ins bb + bf_store_double_ins_count t,
                  store_int8_ins = store_int8_ins bb + bf_store_int8_ins_count t,
                  store_int16_ins = store_int16_ins bb + bf_store_int16_ins_count t,
                  store_int32_ins = store_int32_ins bb + bf_store_int32_ins_count t,
                  store_int64_ins = store_int64_ins bb + bf_store_int64_ins_count t,
                  store_ptr_ins = store_ptr_ins bb + bf_store_ptr_ins_count t,
                  store_other_type_ins = store_other_type_ins bb + bf_store_other_type_ins_count t,
                  flops = flops bb + bf_flop_count t,
                  fp_bits = fp_bits bb + bf_fp_bits_count t,
                  ops = ops bb + bf_op_count t,
                  op_bits = op_bits bb + bf_op_bits_count t,
                  cond_brs = cond_brs bb + (if e = BB_END_COND then 1 else 0),
                  b_blocks = b_blocks bb + 1\<rparr>;
        g' = \<lparr>loads = loads g + loads d,
                   stores = stores g + stores d,
                   load_ins = load_ins g + load_ins d,
                   load_float_ins = load_float_ins g + load_float_ins d,
                   load_double_ins = load_double_ins g + load_double_ins d,
                   load_int8_ins = load_int8_ins g + load_int8_ins d,
                   load_int16_ins = load_int16_ins g + load_int16_ins d,
                   load_int32_ins = load_int32_ins g + load_int32_ins d,
                   load_int64_ins = load_int64_ins g + load_int64_ins d,
                   load_ptr_ins = load_ptr_ins g + load_ptr_ins d,
                   load_other_type_ins = load_other_type_ins g + load_other_type_ins d,
                   store_ins = store_ins g + store_ins d,
                   store_float_ins = store_float_ins g + store_float_ins d,
                   store_double_ins = store_double_ins g + store_double_ins d,
                   store_int8_ins = store_int8_ins g + store_int8_ins d,
                   store_int16_ins = store_int16_ins g + store_int16_ins d,
                   store_int32_ins = store_int32_ins g + store_int32_ins d,
                   store_int64_ins = store_int64_ins g + store_int64_ins d,
                   store_ptr_ins = store_ptr_ins g + store_ptr_ins d,
                   store_other_type_ins = store_other_type_ins g + store_other_type_ins d,
                   flops = flops g + flops d,
                   fp_bits = fp_bits g + fp_bits d,
                   ops = ops g + ops d,
                   op_bits = op_bits g + op_bits d,
                   cond_brs = cond_brs g + cond_brs d,
                   b_blocks = b_blocks g + b_blocks d\<rparr>
    in bb_totals s0 = bb # rest \<and> e \<noteq> BB_NOT_END \<longrightarrow>
         (\<exists>s'. bf_accumulate_bb_tallies (Some A) e s0 = Inr s' \<and>
             global_totals s' = g' \<and>
             user_defined_totals s' =
               AList.update A
                 (case map_of (user_defined_totals s0) A of
                    None \<Rightarrow> d
                  | Some c \<Rightarrow> \<lparr>loads = loads c + loads d,
                                 stores = stores c + stores d,
                                 load_ins = load_ins c + load_ins d,
                                 load_float_ins = load_float_ins c + load_float_ins d,
                                 load_double_ins = load_double_ins c + load_double_ins d,
                                 load_int8_ins = load_int8_ins c + load_int8_ins d,
                                 load_int16_ins = load_int16_ins c + load_int16_ins d,
                                 load_int32_ins = load_int32_ins c + load_int32_ins d,
                                 load_int64_ins = load_int64_ins c + load_int64_ins d,
                                 load_ptr_ins = load_ptr_ins c + load_ptr_ins d,
                                 load_other_type_ins = load_other_type_ins c + load_other_type_ins d,
                                 store_ins = store_ins c + store_ins d,
                                 store_float_ins = store_float_ins c + store_float_ins d,
                                 store_double_ins = store_double_ins c + store_double_ins d,
                                 store_int8_ins = store_int8_ins c + store_int8_ins d,
                                 store_int16_ins = store_int16_ins c + store_int16_ins d,
                                 store_int32_ins = store_int32_ins c + store_int32_ins d,
                                 store_int64_ins = store_int64_ins c + store_int64_ins d,
                                 store_ptr_ins = store_ptr_ins c + store_ptr_ins d,
                                 store_other_type_ins = store_other_type_ins c + store_other_type_ins d,
                                 flops = flops c + flops d,
                                 fp_bits = fp_bits c + fp_bits d,
                                 ops = ops c + ops d,
                                 op_bits = op_bits c + op_bits d,
                                 cond_brs = cond_brs c + cond_brs d,
                                 b_blocks = b_blocks c + b_blocks d\<rparr>)
                 (user_defined_totals s0)) \<and>
         (\<exists>s'. bf_accumulate_bb_tallies None e s0 = Inr s' \<and>
             global_totals s' = g' \<and>
             user_defined_totals s' = user_defined_totals s0))"
    by (simp add: bf_accumulate_bb_tallies_def Let_def accumulate_def tally_args_def
        is_cond_def is_end_def bf_string_to_symbol_opt_def bf_string_to_symbol_def
        split: option.split)
  have i: "partition_is_global A (initialize_byfl static_state)"
    by (simp add: partition_is_global_def init_defs)
  have j: "user_defined_totals (initialize_byfl static_state) = []"
    by (simp add: init_defs)
  have inv: "hook_always (Some A) evs \<and>
      run cfg getenv evs (initialize_byfl static_state) = Inr s \<longrightarrow>
      user_defined_totals s = [(A, global_totals s)] \<or>
      user_defined_totals s = [] \<and> global_totals s = zero_counters"
    using i run_partition [of A evs "initialize_byfl static_state" cfg getenv s]
    by (auto simp: partition_is_global_def)
  have ex: "hook_always (Some A) evs \<and> block_terminated evs \<and>
    run cfg getenv evs (initialize_byfl static_state) = Inr s \<longrightarrow>
      user_defined_totals s = [(A, global_totals s)]"
    using inv run_partition_exists [of "initialize_byfl static_state" evs A cfg getenv s]
    by auto
  have none: "hook_always None evs \<and>
      run cfg getenv evs (initialize_byfl static_state) = Inr s \<longrightarrow>
      user_defined_totals s = []"
    using j run_no_partition [of evs "initialize_byfl static_state" cfg getenv s] by auto
  from step inv ex none show ?thesis by blast
qed

lemma run_partition_events:
  "\<exists>s. run example_config no_env partition_events (initialize_byfl static_state) = Inr s \<and>
       loads (global_totals s) = 4 \<and> stores (global_totals s) = 8 \<and>
       b_blocks (global_totals s) = 2"
  by (simp add: partition_events_def init_defs bf_accumulate_bb_tallies_def Let_def
      bf_reset_bb_tallies_def reset_def accumulate_def tally_args_def is_cond_def is_end_def
      bf_string_to_symbol_opt_def bf_string_to_symbol_def)

lemma run_no_hook_events:
  "\<exists>s. run example_config no_env no_hook_events (initialize_byfl static_state) = Inr s \<and>
       loads (global_totals s) = 4"
  by (simp add: no_hook_events_def init_defs bf_accumulate_bb_tallies_def Let_def
      bf_reset_bb_tallies_def reset_def accumulate_def tally_args_def is_cond_def is_end_def
      bf_string_to_symbol_opt_def bf_string_to_symbol_def bf_categorize_counters_def)

text \<open>
  One terminating block with a new tag, with no tag, and with a tag already in the
  table; then two runs: two terminating blocks tagged \<open>A\<close>, and one block with the
  default hook.
\<close>

theorem partition_routing_witness:
  "bb_totals flush_state = [zero_counters] \<and>
   (\<exists>s'. bf_accumulate_bb_tallies (Some ''A'') BB_END_COND flush_state = Inr s' \<and>
      global_totals s' = zero_counters\<lparr>loads := 1, load_ins := 1, cond_brs := 1, b_blocks := 1\<rparr> \<and>
      user_defined_totals s' =
        [(''A'', zero_counters\<lparr>loads := 1, load_ins := 1, cond_brs := 1, b_blocks := 1\<rparr>)]) \<and>
   (\<exists>s'. bf_accumulate_bb_tallies None BB_END_COND flush_state = Inr s' \<and>
      global_totals s' = zero_counters\<lparr>loads := 1, load_ins := 1, cond_brs := 1, b_blocks := 1\<rparr> \<and>
      user_defined_totals s' = []) \<and>
   bb_totals partition_state = [zero_counters] \<and>
   (\<exists>s'. bf_accumulate_bb_tallies (Some ''A'') BB_END_UNCOND partition_state = Inr s' \<and>
      global_totals s' = zero_counters\<lparr>loads := 11, load_ins := 1, b_blocks := 3\<rparr> \<and>
      user_defined_totals s' =
        [(''A'', zero_counters\<lparr>loads := 11, load_ins := 1, b_blocks := 3\<rparr>)]) \<and>
   hook_always (Some ''A'') partition_events \<and> block_terminated partition_events \<and>
   (\<exists>s. run example_config no_env partition_events (initialize_byfl static_state) = Inr s \<and>
        loads (global_totals s) = 4 \<and> stores (global_totals s) = 8 \<and>
        user_defined_totals s = [(''A'', global_totals s)]) \<and>
   hook_always None no_hook_events \<and>
   (\<exists>s. run example_config no_env no_hook_events (initialize_byfl static_state) = Inr s \<and>
        loads (global_totals s) = 4 \<and> user_defined_totals s = [])"
proof -
  have f: "bb_totals flush_state = [zero_counters]"
    "tallies flush_state = zero_tally\<lparr>bf_load_count := 1, bf_load_ins_count := 1\<rparr>"
    "global_totals flush_state = zero_counters" "user_defined_totals flush_state = []"
    by (simp_all add: flush_state_def init_defs)
  have p: "bb_totals partition_state = [zero_counters]"
    "tallies partition_state = zero_tally\<lparr>bf_load_count := 1, bf_load_ins_count := 1\<rparr>"
    "global_totals partition_state = zero_counters\<lparr>loads := 10, b_blocks := 2\<rparr>"
    "user_defined_totals partition_state
       = [(''A'', zero_counters\<lparr>loads := 10, b_blocks := 2\<rparr>)]"
    by (simp_all add: partition_state_def flush_state_def init_defs)
  have h1: "hook_always (Some ''A'') partition_events" "block_terminated partition_events"
    by (simp_all add: partition_events_def)
  have h2: "hook_always None no_hook_events"
    by (simp add: no_hook_events_def bf_categorize_counters_def)
  from run_partition_events obtain s1 where
    s1: "run example_config no_env partition_events (initialize_byfl static_state) = Inr s1"
      "loads (global_totals s1) = 4" "stores (global_totals s1) = 8" by blast
  from run_no_hook_events obtain s2 where
    s2: "run example_config no_env no_hook_events (initialize_byfl static_state) = Inr s2"
      "loads (global_totals s2) = 4" by blast
  from partition_routing [where ?s0.0 = flush_state and bb = zero_counters and rest = "[]"
      and e = BB_END_COND and A = "''A''"]
  have a: "(\<exists>s'. bf_accumulate_bb_tallies (Some ''A'') BB_END_COND flush_state = Inr s' \<and>
      global_totals s' = zero_counters\<lparr>loads := 1, load_ins := 1, cond_brs := 1, b_blocks := 1\<rparr> \<and>
      user_defined_totals s' =
        [(''A'', zero_counters\<lparr>loads := 1, load_ins := 1, cond_brs := 1, b_blocks := 1\<rparr>)]) \<and>
   (\<exists>s'. bf_accumulate_bb_tallies None BB_END_COND flush_state = Inr s' \<and>
      global_totals s' = zero_counters\<lparr>loads := 1, load_ins := 1, cond_brs := 1, b_blocks := 1\<rparr> \<and>
      user_defined_totals s' = [])"
    by (simp add: f Let_def zero_counters_def zero_tally_def)
  from partition_routing [where ?s0.0 = partition_state and bb = zero_counters and rest = "[]"
      and e = BB_END_UNCOND and A = "''A''"]
  have b: "\<exists>s'. bf_accumulate_bb_tallies (Some ''A'') BB_END_UNCOND partition_state = Inr s' \<and>
      global_totals s' = zero_counters\<lparr>loads := 11, load_ins := 1, b_blocks := 3\<rparr> \<and>
      user_defined_totals s' =
        [(''A'', zero_counters\<lparr>loads := 11, load_ins := 1, b_blocks := 3\<rparr>)]"
    by (simp add: p Let_def zero_counters_def zero_tally_def)
  from partition_routing [where A = "''A''" and evs = partition_events and cfg = example_config
      and getenv = no_env and s = s1] h1 s1
  have c: "user_defined_totals s1 = [(''A'', global_totals s1)]" by blast
  from partition_routing [where evs = no_hook_events and cfg = example_config
      and getenv = no_env and s = s2] h2 s2
  have d: "user_defined_totals s2 = []" by blast
  from f(1) p(1) a b h1 h2 s1 s2 c d show ?thesis by blast
qed

subsection \<open>Facts about the tally table\<close>

lemma tally_of_add_tally:
  "tally_of (add_tally k d m) k' = (if k' = k then tally_of m k + d else tally_of m k')"
  by (simp add: tally_of_def add_tally_def update_conv')

lemma push_function_tallies:
  "func_call_tallies (bf_push_function f s) =
     add_tally f 0 (add_tally (fst (push_function f (call_stack s))) 1 (func_call_tallies s))"
  by (simp add: bf_push_function_def Let_def bf_string_to_symbol_def split: prod.split)

lemma step_tallies:
  assumes "step cfg getenv ev s = Inr s'"
  shows "tally_bumps (complete_call_stack (call_stack s)) (ev # evs) =
           tally_bumps (complete_call_stack (call_stack s)) [ev]
             @ tally_bumps (complete_call_stack (call_stack s')) evs \<and>
         tally_of (func_call_tallies s') k =
           tally_of (func_call_tallies s) k
             + of_nat (count_list (tally_bumps (complete_call_stack (call_stack s)) [ev]) k)"
proof (cases ev)
  case (PushFunction f)
  with assms have s': "s' = bf_push_function f s" by simp
  show ?thesis
    by (simp add: PushFunction s' push_function_frame push_function_stack push_function_key
        push_function_tallies tally_of_add_tally Let_def)
next
  case (IncrFuncTally f)
  with assms have s': "s' = bf_incr_func_tally f s" by simp
  show ?thesis
    by (simp add: IncrFuncTally s' incr_func_tally_frame bf_incr_func_tally_def
        bf_string_to_symbol_def tally_of_add_tally Let_def)
qed (insert assms,
     auto simp: push_basic_block_frame pop_basic_block_frame pop_function_frame
       accumulate_bb_frame reset_bb_frame assoc_counters_frame report_bb_frame)

lemma count_list_append: "count_list (xs @ ys) k = count_list xs k + count_list ys k"
  by (induction xs) simp_all

lemma run_tallies:
  "run cfg getenv evs s = Inr s' \<Longrightarrow>
   tally_of (func_call_tallies s') k =
     tally_of (func_call_tallies s) k
       + of_nat (count_list (tally_bumps (complete_call_stack (call_stack s)) evs) k)"
proof (induction evs arbitrary: s)
  case Nil
  then show ?case by simp
next
  case (Cons ev evs)
  from Cons.prems obtain s1 where s1: "step cfg getenv ev s = Inr s1"
      and r: "run cfg getenv evs s1 = Inr s'"
    by (cases "step cfg getenv ev s") simp_all
  note st = step_tallies [OF s1, of evs k]
  from Cons.IH [OF r] st show ?case
    by (simp add: count_list_append)
qed

lemma tally_bumps_prefix:
  "\<exists>ys. tally_bumps st (evs @ later) = tally_bumps st evs @ ys"
proof (induction evs arbitrary: st)
  case Nil
  then show ?case by simp
next
  case (Cons ev evs)
  show ?case
    using Cons.IH by (cases ev) (simp_all add: Let_def)
qed

lemma map_of_add_tally:
  "map_of (add_tally k d m) k' =
     (if k' = k then Some ((case map_of m k of None \<Rightarrow> 0 | Some n \<Rightarrow> n) + d) else map_of m k')"
  by (simp add: add_tally_def tally_of_def update_conv')

lemma word_of_nat_mono_below:
  assumes "a \<le> b" and "b < 2 ^ 64"
  shows "(of_nat a :: uint64) \<le> of_nat b"
proof -
  from assms have "a < 2 ^ 64" by simp
  with assms show ?thesis
    by (simp add: word_le_nat_alt unat_of_nat)
qed

subsection \<open>Invocation tallies\<close>

text \<open>
  C6 (as amended). \<open>bf_incr_func_tally\<close> raises the tally stored under the bare name by
  exactly one (creating it at one) and changes no other entry. \<open>bf_push_function\<close>
  raises by one the tally stored under the combined name (the function followed by its
  live ancestors), makes sure that an entry exists under the bare name, leaving its
  tally as it was or creating it at zero, and changes no other entry. After any run
  from the initial state, whatever the configuration, the tally stored under a key is,
  modulo \<open>2^64\<close>, the number of function entries whose combined name is that key plus
  the number of \<open>bf_incr_func_tally\<close> calls for it; that number never decreases as the
  run goes on, and neither does the stored tally as long as the number is below
  \<open>2^64\<close>.
\<close>

theorem invocation_tallies:
  "map_of (func_call_tallies (bf_incr_func_tally f s0)) k =
     (if k = f then Some ((case map_of (func_call_tallies s0) f of None \<Rightarrow> 0 | Some n \<Rightarrow> n) + 1)
      else map_of (func_call_tallies s0) k) \<and>
   (let key = (case complete_call_stack (call_stack s0) of
                 [] \<Rightarrow> f | anc # below \<Rightarrow> f @ '' '' @ anc)
    in map_of (func_call_tallies (bf_push_function f s0)) k =
         (if k = key
          then Some ((case map_of (func_call_tallies s0) key of None \<Rightarrow> 0 | Some n \<Rightarrow> n) + 1)
          else if k = f
          then Some (case map_of (func_call_tallies s0) f of None \<Rightarrow> 0 | Some n \<Rightarrow> n)
          else map_of (func_call_tallies s0) k)) \<and>
   map_of (func_call_tallies (bf_push_function f s0)) f \<noteq> None \<and>
   (run cfg getenv evs (initialize_byfl static_state) = Inr s \<longrightarrow>
      tally_of (func_call_tallies s) k = of_nat (count_list (tally_bumps [] evs) k)) \<and>
   count_list (tally_bumps [] evs) k \<le> count_list (tally_bumps [] (evs @ later)) k \<and>
   (run cfg getenv evs (initialize_byfl static_state) = Inr s \<and>
    run cfg getenv (evs @ later) (initialize_byfl static_state) = Inr s2 \<and>
    count_list (tally_bumps [] (evs @ later)) k < 2 ^ 64 \<longrightarrow>
      tally_of (func_call_tallies s) k \<le> tally_of (func_call_tallies s2) k)"
proof -
  have a: "map_of (func_call_tallies (bf_incr_func_tally f s0)) k =
     (if k = f then Some ((case map_of (func_call_tallies s0) f of None \<Rightarrow> 0 | Some n \<Rightarrow> n) + 1)
      else map_of (func_call_tallies s0) k)"
    by (simp add: bf_incr_func_tally_def bf_string_to_symbol_def map_of_add_tally)
  have p: "(let key = (case complete_call_stack (call_stack s0) of
                 [] \<Rightarrow> f | anc # below \<Rightarrow> f @ '' '' @ anc)
    in map_of (func_call_tallies (bf_push_function f s0)) k =
         (if k = key
          then Some ((case map_of (func_call_tallies s0) key of None \<Rightarrow> 0 | Some n \<Rightarrow> n) + 1)
          else if k = f
          then Some (case map_of (func_call_tallies s0) f of None \<Rightarrow> 0 | Some n \<Rightarrow> n)
          else map_of (func_call_tallies s0) k))"
    by (simp add: push_function_tallies push_function_key map_of_add_tally Let_def)
  have q: "map_of (func_call_tallies (bf_push_function f s0)) f \<noteq> None"
    by (simp add: push_function_tallies map_of_add_tally)
  have i: "complete_call_stack (call_stack (initialize_byfl static_state)) = []"
    "tally_of (func_call_tallies (initialize_byfl static_state)) k = 0"
    by (simp_all add: init_defs tally_of_def)
  have b: "run cfg getenv evs (initialize_byfl static_state) = Inr s \<longrightarrow>
      tally_of (func_call_tallies s) k = of_nat (count_list (tally_bumps [] evs) k)"
    using run_tallies [of cfg getenv evs "initialize_byfl static_state" s k] i by simp
  have b2: "run cfg getenv (evs @ later) (initialize_byfl static_state) = Inr s2 \<longrightarrow>
      tally_of (func_call_tallies s2) k = of_nat (count_list (tally_bumps [] (evs @ later)) k)"
    using run_tallies [of cfg getenv "evs @ later" "initialize_byfl static_state" s2 k] i
    by simp
  from tally_bumps_prefix [of "[]" evs later] obtain ys where
    "tally_bumps [] (evs @ later) = tally_bumps [] evs @ ys" by blast
  then have c: "count_list (tally_bumps [] evs) k \<le> count_list (tally_bumps [] (evs @ later)) k"
    by (simp add: count_list_append)
  have d: "run cfg getenv evs (initialize_byfl static_state) = Inr s \<and>
    run cfg getenv (evs @ later) (initialize_byfl static_state) = Inr s2 \<and>
    count_list (tally_bumps [] (evs @ later)) k < 2 ^ 64 \<longrightarrow>
      tally_of (func_call_tallies s) k \<le> tally_of (func_call_tallies s2) k"
    using b b2 c word_of_nat_mono_below by auto
  from a p q b c d show ?thesis by blast
qed

lemma run_call_events:
  "\<exists>s. run example_config no_env call_events (initialize_byfl static_state) = Inr s"
  by (simp add: call_events_def)

lemma run_more_call_events:
  "\<exists>s. run example_config no_env (call_events @ more_call_events)
         (initialize_byfl static_state) = Inr s"
  by (simp add: call_events_def more_call_events_def init_defs bf_push_function_def
      push_function_def bf_pop_function_def pop_function_def Let_def)

text \<open>
  \<open>main\<close> calls \<open>f\<close>: the entries are tallied under \<open>main\<close> and \<open>f main\<close>, none under
  \<open>f\<close>, whose entry exists. When \<open>f\<close> returns, is tallied once by name and is called
  again, the tallies have grown.
\<close>

theorem invocation_tallies_witness:
  "\<exists>s s2. run example_config no_env call_events (initialize_byfl static_state) = Inr s \<and>
       run example_config no_env (call_events @ more_call_events)
         (initialize_byfl static_state) = Inr s2 \<and>
       tally_of (func_call_tallies s) ''main'' = 1 \<and>
       tally_of (func_call_tallies s) ''f main'' = 1 \<and>
       tally_of (func_call_tallies s) ''f'' = 0 \<and>
       map_of (func_call_tallies (bf_push_function ''f'' static_state)) ''f'' = Some 1 \<and>
       map_of (func_call_tallies (bf_incr_func_tally ''f'' static_state)) ''f'' = Some 1 \<and>
       tally_of (func_call_tallies s2) ''f main'' = 2 \<and>
       tally_of (func_call_tallies s2) ''f'' = 1 \<and>
       count_list (tally_bumps [] (call_events @ more_call_events)) ''f main'' < 2 ^ 64 \<and>
       tally_of (func_call_tallies s) ''f main'' \<le> tally_of (func_call_tallies s2) ''f main''"
proof -
  from run_call_events obtain s where
    s: "run example_config no_env call_events (initialize_byfl static_state) = Inr s" by blast
  from run_more_call_events obtain s2 where
    s2: "run example_config no_env (call_events @ more_call_events)
           (initialize_byfl static_state) = Inr s2" by blast
  have st: "complete_call_stack (call_stack static_state) = []"
    "func_call_tallies static_state = []"
    by (simp_all add: static_state_def new_CallStack_def)
  have n: "count_list (tally_bumps [] (call_events @ more_call_events)) ''f main'' = 2"
    "count_list (tally_bumps [] (call_events @ more_call_events)) ''f'' = 1"
    by (simp_all add: call_events_def more_call_events_def Let_def)
  have "tally_of (func_call_tallies s) ''main'' = 1"
    using invocation_tallies [where cfg = example_config and getenv = no_env
        and evs = call_events and s = s and k = "''main''"] s
    by (simp add: call_events_def Let_def)
  moreover have "tally_of (func_call_tallies s) ''f main'' = 1"
    using invocation_tallies [where cfg = example_config and getenv = no_env
        and evs = call_events and s = s and k = "''f main''"] s
    by (simp add: call_events_def Let_def)
  moreover have "tally_of (func_call_tallies s) ''f'' = 0"
    using invocation_tallies [where cfg = example_config and getenv = no_env
        and evs = call_events and s = s and k = "''f''"] s
    by (simp add: call_events_def Let_def)
  moreover have "map_of (func_call_tallies (bf_push_function ''f'' static_state)) ''f'' = Some 1"
    "map_of (func_call_tallies (bf_incr_func_tally ''f'' static_state)) ''f'' = Some 1"
    using invocation_tallies [where ?s0.0 = static_state and f = "''f''" and k = "''f''"]
    by (simp_all add: st Let_def)
  moreover have "tally_of (func_call_tallies s2) ''f main'' = 2"
    using invocation_tallies [where cfg = example_config and getenv = no_env
        and evs = "call_events @ more_call_events" and s = s2 and k = "''f main''"] s2 n
    by simp
  moreover have "tally_of (func_call_tallies s2) ''f'' = 1"
    using invocation_tallies [where cfg = example_config and getenv = no_env
        and evs = "call_events @ more_call_events" and s = s2 and k = "''f''"] s2 n
    by simp
  moreover have "tally_of (func_call_tallies s) ''f main'' \<le> tally_of (func_call_tallies s2) ''f main''"
  proof -
    have "count_list (tally_bumps [] (call_events @ more_call_events)) ''f main''
            < (2 :: nat) ^ 64"
      using n by simp
    with invocation_tallies [where cfg = example_config and getenv = no_env
        and evs = call_events and later = more_call_events and s = s and ?s2.0 = s2
        and k = "''f main''"] s s2
    show ?thesis by blast
  qed
  ultimately show ?thesis using s s2 n by auto
qed

text \<open>
  C6 as stated fails: the run enters \<open>f\<close> once, and the tally recorded for the name
  \<open>f\<close> is 0.
\<close>

theorem invocation_tally_counterexample:
  "(case run example_config no_env call_events (initialize_byfl static_state) of
      Inl err \<Rightarrow> False
    | Inr s \<Rightarrow> tally_of (func_call_tallies s) ''f'' = 0) \<and>
   count_list call_events (PushFunction ''f'') = 1"
  by (simp add: call_events_def init_defs bf_push_function_def push_function_def Let_def
      bf_string_to_symbol_def add_tally_def tally_of_def)


lemma b_blocks_fold_tallies:
  "b_blocks (accumulate g (tally_args t 0 0)) = b_blocks g"
  by (simp add: accumulate_def tally_args_def)

subsection \<open>Completing the global totals at the end of the program\<close>

text \<open>
  C7 (as amended). When output is not suppressed, the end-of-program report returns
  normally. If \<open>global_totals\<close> counted no basic block, it adds the thread-local scalars
  to \<open>global_totals\<close> and then, the block count being still zero, also adds the counters
  of every function record and clears \<open>b_blocks\<close> and \<open>cond_brs\<close>; if a basic block was
  counted, \<open>global_totals\<close> is left as it is.
\<close>

theorem end_of_program_totals:
  assumes "suppress_output getenv s = Inr (False, s1)"
  shows "\<exists>s'. run_at_end_of_program cfg getenv ext s = Inr s' \<and>
           global_totals s' =
             (if b_blocks (global_totals s) = 0
              then (foldl accumulate
                      (accumulate (global_totals s) (tally_args (tallies s) 0 0))
                      (map snd (per_func_totals s)))
                     \<lparr>b_blocks := 0, cond_brs := 0\<rparr>
              else global_totals s)"
proof -
  note fr = suppress_output_frame [OF assms]
  show ?thesis
    by (simp add: run_at_end_of_program_def assms Let_def fold_tallies_into_global_def
        reconstruct_from_per_func_def b_blocks_fold_tallies fr)
qed

text \<open>Three bytes in the scalars and five in the record of \<open>f\<close> give eight.\<close>

theorem end_of_program_totals_witness:
  "suppress_output no_env shutdown_state = Inr (False, shutdown_state\<lparr>output_v := SHOW\<rparr>) \<and>
   (\<exists>s'. run_at_end_of_program example_config no_env example_collab shutdown_state = Inr s' \<and>
      global_totals s' = zero_counters\<lparr>loads := 8\<rparr>)"
proof -
  have h: "suppress_output no_env shutdown_state
             = Inr (False, shutdown_state\<lparr>output_v := SHOW\<rparr>)"
    by (simp add: suppress_output_def no_env_def shutdown_state_def init_defs)
  have v: "global_totals shutdown_state = zero_counters"
    "tallies shutdown_state = zero_tally\<lparr>bf_load_count := 3\<rparr>"
    "per_func_totals shutdown_state = [(''f'', zero_counters\<lparr>loads := 5\<rparr>)]"
    by (simp_all add: shutdown_state_def init_defs)
  have "(foldl accumulate
           (accumulate zero_counters (tally_args (zero_tally\<lparr>bf_load_count := 3\<rparr>) 0 0))
           [zero_counters\<lparr>loads := 5\<rparr>])\<lparr>b_blocks := 0, cond_brs := 0\<rparr>
         = zero_counters\<lparr>loads := 8\<rparr>"
    by (simp add: accumulate_def tally_args_def zero_counters_def zero_tally_def)
  with end_of_program_totals [OF h, of example_config example_collab] v
  have "\<exists>s'. run_at_end_of_program example_config no_env example_collab shutdown_state = Inr s' \<and>
      global_totals s' = zero_counters\<lparr>loads := 8\<rparr>"
    by (simp add: zero_counters_def)
  with h show ?thesis by blast
qed

text \<open>
  C7 as stated fails: after the run \<open>shutdown_events\<close>, adding the scalars makes
  \<open>global_totals\<close> non-empty (3 bytes loaded), and the per-function counters are added
  all the same (8 bytes loaded).
\<close>

theorem reconstruction_after_fold_counterexample:
  "(case run example_config no_env shutdown_events (initialize_byfl static_state) of
      Inl err \<Rightarrow> False
    | Inr s \<Rightarrow>
        b_blocks (global_totals s) = 0 \<and>
        loads (global_totals (fold_tallies_into_global s)) = 3 \<and>
        global_totals (fold_tallies_into_global s) \<noteq> zero_counters \<and>
        map (\<lambda>(name, c). (name, loads c)) (per_func_totals s) = [(''f'', 5)] \<and>
        (case run_at_end_of_program example_config no_env example_collab s of
           Inl err \<Rightarrow> False
         | Inr s' \<Rightarrow> loads (global_totals s') = 8))"
  by (simp add: shutdown_events_def init_defs bf_assoc_counters_with_func_def Let_def
      example_config_def tally_args_def is_cond_def is_end_def bf_string_to_symbol_def
      fold_tallies_into_global_def reconstruct_from_per_func_def accumulate_def
      run_at_end_of_program_def suppress_output_def no_env_def)

subsection \<open>Output suppression\<close>












subsection \<open>The emitted deltas add up\<close>

text \<open>
  In every state reached from the initial one, the column-wise sum of all emitted
  \<open>BYFL_BB\<close> rows is the row of \<open>prev_global_totals\<close>, the snapshot taken at the last
  emission.
\<close>

lemma emitted_rows_append:
  "emitted_rows (xs @ ys) = emitted_rows xs @ emitted_rows ys"
  by (induction xs rule: emitted_rows.induct) simp_all

lemma bb_row_telescope:
  "map2 (+) (bb_row cfg p) (bb_row cfg (difference g p)) = bb_row cfg g"
  by (simp add: bb_row_def difference_def)

lemma step_output_frame:
  assumes "step cfg getenv ev s = Inr s'" and "ev \<noteq> ReportBBTallies"
  shows "cout s' = cout s \<and> prev_global_totals s' = prev_global_totals s"
proof (cases ev)
  case (AccumulateBBTallies h e)
  with assms show ?thesis
    by (auto simp: bf_accumulate_bb_tallies_def Let_def
        split: list.splits option.splits if_splits)
next
  case (PushFunction f)
  with assms show ?thesis
    by (auto simp: bf_push_function_def Let_def split: prod.splits)
next
  case PopFunction
  with assms show ?thesis
    by (auto simp: bf_pop_function_def pop_function_def split: list.splits)
next
  case (AssocCountersWithFunc f e)
  with assms show ?thesis
    by (auto simp: bf_assoc_counters_with_func_def Let_def split: option.splits)
qed (insert assms,
     auto simp: bf_push_basic_block_def bf_pop_basic_block_def bf_incr_func_tally_def
       bf_reset_bb_tallies_def Let_def split: prod.splits list.splits)

lemma report_bb_rows:
  assumes "bf_report_bb_tallies cfg getenv s = Inr s'"
    and "sum_rows cfg (emitted_rows (cout s)) = bb_row cfg (prev_global_totals s)"
  shows "sum_rows cfg (emitted_rows (cout s')) = bb_row cfg (prev_global_totals s')"
proof -
  from assms(1) obtain b s1 where so: "suppress_output getenv s = Inr (b, s1)"
    by (cases "suppress_output getenv s") (auto simp: bf_report_bb_tallies_def)
  note fr = suppress_output_frame [OF so]
  from assms(1) so fr assms(2) show ?thesis
    by (auto simp: bf_report_bb_tallies_def Let_def emitted_rows_append sum_rows_def
        bb_row_telescope split: if_splits)
qed

lemma decimation_telescopes:
  "run cfg getenv evs s = Inr s' \<Longrightarrow>
   sum_rows cfg (emitted_rows (cout s)) = bb_row cfg (prev_global_totals s) \<Longrightarrow>
   sum_rows cfg (emitted_rows (cout s')) = bb_row cfg (prev_global_totals s')"
proof (induction evs arbitrary: s)
  case Nil
  then show ?case by simp
next
  case (Cons ev evs)
  from Cons.prems(1) obtain s1 where s1: "step cfg getenv ev s = Inr s1"
      and r: "run cfg getenv evs s1 = Inr s'"
    by (cases "step cfg getenv ev s") simp_all
  have "sum_rows cfg (emitted_rows (cout s1)) = bb_row cfg (prev_global_totals s1)"
  proof (cases "ev = ReportBBTallies")
    case True
    with s1 Cons.prems(2) show ?thesis by (simp add: report_bb_rows)
  next
    case False
    with s1 Cons.prems(2) show ?thesis by (simp add: step_output_frame)
  qed
  with r show ?case by (rule Cons.IH)
qed

lemma decimation_invariant:
  "run cfg getenv evs (initialize_byfl static_state) = Inr s \<Longrightarrow>
   sum_rows cfg (emitted_rows (cout s)) = bb_row cfg (prev_global_totals s)"
  by (erule decimation_telescopes) (simp add: init_defs sum_rows_def bb_row_def)

end
